theory Spec2Isabelle
  imports Complex_Main "HOL-Library.Word"
begin

section \<open>A Rollup plugin for WebAssembly modules (src/index.mjs)\<close>

text \<open>
  The plugin turns a \<^verbatim>\<open>.wasm\<close> file into a JavaScript module (a shim) that
  instantiates the binary and re-exports its exports. The binary travels either inside
  the shim, as a base64 data URI, or beside it, as an emitted asset that the shim fetches.

  What the module takes from its platform is a parameter of the embedding (the record
  \<open>host\<close> below): the file system, \<^verbatim>\<open>WebAssembly.compile\<close>, Rollup's
  \<^verbatim>\<open>this.resolve\<close>, \<^verbatim>\<open>path.basename\<close> and the MD5 digest. The
  base64 alphabet of Node's \<^verbatim>\<open>'base64'\<close> encoding is written out (RFC 4648),
  since the round trip through it is a property of the module.
\<close>

subsection \<open>JavaScript values\<close>

text \<open>
  A JavaScript number is a double. The module only compares numbers, and comparison of
  finite doubles is comparison of the rationals they denote, so a number is a rational,
  an infinity or NaN. Every comparison with NaN is false.
\<close>

datatype jsnum = Fin rat | PosInf | NegInf | NaN

fun js_lt :: "jsnum \<Rightarrow> jsnum \<Rightarrow> bool" where
  "js_lt NaN _ = False"
| "js_lt _ NaN = False"
| "js_lt (Fin a) (Fin b) = (a < b)"
| "js_lt (Fin _) PosInf = True"
| "js_lt (Fin _) NegInf = False"
| "js_lt PosInf _ = False"
| "js_lt NegInf NegInf = False"
| "js_lt NegInf _ = True"

fun js_eq :: "jsnum \<Rightarrow> jsnum \<Rightarrow> bool" where
  "js_eq NaN _ = False"
| "js_eq _ NaN = False"
| "js_eq a b = (a = b)"

definition js_gt :: "jsnum \<Rightarrow> jsnum \<Rightarrow> bool" where
  "js_gt a b = js_lt b a"

definition js_le :: "jsnum \<Rightarrow> jsnum \<Rightarrow> bool" where
  "js_le a b = (js_lt a b \<or> js_eq a b)"

datatype jsval = JUndefined | JNull | JBool bool | JNum jsnum | JStr string | JObject

fun typeof :: "jsval \<Rightarrow> string" where
  "typeof JUndefined = ''undefined''"
| "typeof JNull = ''object''"
| "typeof (JBool _) = ''boolean''"
| "typeof (JNum _) = ''number''"
| "typeof (JStr _) = ''string''"
| "typeof JObject = ''object''"

definition startsWith :: "string \<Rightarrow> string \<Rightarrow> bool" where
  "startsWith s p = (take (length p) s = p)"

definition endsWith :: "string \<Rightarrow> string \<Rightarrow> bool" where
  "endsWith s suf = (length suf \<le> length s \<and> drop (length s - length suf) s = suf)"

text \<open>\<^verbatim>\<open>Array.prototype.join\<close>.\<close>

fun join :: "string \<Rightarrow> string list \<Rightarrow> string" where
  "join sep [] = []"
| "join sep [x] = x"
| "join sep (x # y # ys) = x @ sep @ join sep (y # ys)"

subsection \<open>Configuration: \<^verbatim>\<open>wasmPlugin(options)\<close>\<close>

text \<open>
  The options object; a property that is absent reads as \<open>JUndefined\<close>, and the
  destructuring defaults apply exactly to the properties that read as undefined.
\<close>

record options =
  opt_maxFileSize :: jsval
  opt_targetEnv :: jsval

datatype target = Node | Browser

text \<open>The two constants the hooks close over, once validation has passed.\<close>

record config =
  maxFileSize :: jsnum
  targetEnv :: target

definition default_maxFileSize :: jsval where
  "default_maxFileSize = JNum (Fin 14336)"

definition default_targetEnv :: jsval where
  "default_targetEnv = JStr ''node''"

text \<open>
  \<open>Inl\<close> is the message of the \<^verbatim>\<open>Error\<close> the constructor throws; \<open>Inr\<close> is the
  plugin, which is its two hooks closed over the configuration.
\<close>

definition wasmPlugin :: "options \<Rightarrow> string + config" where
  "wasmPlugin opts =
     (let maxFileSize = (if opt_maxFileSize opts = JUndefined then default_maxFileSize
                         else opt_maxFileSize opts);
          targetEnv = (if opt_targetEnv opts = JUndefined then default_targetEnv
                       else opt_targetEnv opts)
      in if targetEnv \<noteq> JStr ''node'' \<and> targetEnv \<noteq> JStr ''browser''
         then Inl ''targetEnv must be node or browser''
         else (case maxFileSize of
                 JNum n \<Rightarrow>
                   if js_lt n (Fin 0) then Inl ''maxFileSize must be a non-negative number''
                   else Inr \<lparr>maxFileSize = n,
                            targetEnv = (if targetEnv = JStr ''node'' then Node else Browser)\<rparr>
               | _ \<Rightarrow> Inl ''maxFileSize must be a non-negative number''))"

subsection \<open>The platform\<close>

type_synonym byte = "8 word"

text \<open>
  What \<^verbatim>\<open>WebAssembly.Module.imports\<close> and \<^verbatim>\<open>WebAssembly.Module.exports\<close>
  return for a compiled module: the (module, name) pairs of the import section and the
  names of the export section, both in declaration order.
\<close>

record wasm_module =
  mod_imports :: "(string \<times> string) list"
  mod_exports :: "string list"

text \<open>
  The object \<^verbatim>\<open>this.resolve\<close> returns: its \<^verbatim>\<open>id\<close> and the string
  properties of its \<^verbatim>\<open>meta\<close>.
\<close>

record resolved =
  id' :: string
  meta :: "string \<rightharpoonup> string"

text \<open>
  A failing call is \<open>Inl\<close> with the message of the error it throws.
  \<open>statSize p\<close> is \<^verbatim>\<open>fs.statSync(p).size\<close>, \<open>readFile\<close> is
  \<^verbatim>\<open>fs.promises.readFile\<close>, \<open>compile\<close> is \<^verbatim>\<open>WebAssembly.compile\<close>,
  \<open>resolve source importer\<close> is \<^verbatim>\<open>this.resolve\<close> (\<open>None\<close> for null),
  \<open>md5hex\<close> is \<^verbatim>\<open>crypto.createHash('md5').update(s).digest('hex')\<close> and
  \<open>basename p ext\<close> is \<^verbatim>\<open>path.basename(p, ext)\<close>, with \<open>ext = []\<close>
  for the call with one argument.
\<close>

record host =
  statSize :: "string \<Rightarrow> string + nat"
  readFile :: "string \<Rightarrow> string + byte list"
  compile :: "byte list \<Rightarrow> string + wasm_module"
  resolve :: "string \<Rightarrow> string option \<Rightarrow> resolved option"
  md5hex :: "string \<Rightarrow> string"
  basename :: "string \<Rightarrow> string \<Rightarrow> string"

text \<open>
  What a hook asks of the platform, in the order the requests are issued;
  \<open>ReportError\<close> is \<^verbatim>\<open>this.error\<close> and \<open>EmitFile\<close> is
  \<^verbatim>\<open>this.emitFile\<close> of an asset.
\<close>

datatype event =
    StatSync string
  | ReadFile string
  | Resolve string
  | EmitFile string "byte list"
  | ReportError string

subsection \<open>Base64 (Node's \<^verbatim>\<open>'base64'\<close> encoding, RFC 4648)\<close>

definition b64_alphabet :: string where
  "b64_alphabet = ''ABCDEFGHIJKLMNOPQRSTUVWXYZabcdefghijklmnopqrstuvwxyz0123456789+/''"

definition b64_char :: "nat \<Rightarrow> char" where
  "b64_char n = b64_alphabet ! n"

fun index_of :: "'a \<Rightarrow> 'a list \<Rightarrow> nat" where
  "index_of x [] = 0"
| "index_of x (y # ys) = (if x = y then 0 else Suc (index_of x ys))"

definition b64_index :: "char \<Rightarrow> nat" where
  "b64_index c = index_of c b64_alphabet"

text \<open>Three bytes are four sextets; one or two trailing bytes are padded with \<^verbatim>\<open>=\<close>.\<close>

fun base64_encode :: "byte list \<Rightarrow> string" where
  "base64_encode [] = []"
| "base64_encode [a] =
     (let n = unat a * 65536
      in [b64_char (n div 262144), b64_char (n div 4096 mod 64), CHR ''='', CHR ''=''])"
| "base64_encode [a, b] =
     (let n = unat a * 65536 + unat b * 256
      in [b64_char (n div 262144), b64_char (n div 4096 mod 64),
          b64_char (n div 64 mod 64), CHR ''=''])"
| "base64_encode (a # b # c # rest) =
     (let n = unat a * 65536 + unat b * 256 + unat c
      in [b64_char (n div 262144), b64_char (n div 4096 mod 64),
          b64_char (n div 64 mod 64), b64_char (n mod 64)] @ base64_encode rest)"

text \<open>
  The decoder of the shim (\<^verbatim>\<open>Buffer.from(s, "base64")\<close>, or \<^verbatim>\<open>atob\<close>):
  four characters are three bytes, and decoding ends at the padding.
\<close>

fun base64_decode :: "string \<Rightarrow> byte list" where
  "base64_decode (w # x # y # z # rest) =
     (if y = CHR ''='' then
        [of_nat ((b64_index w * 262144 + b64_index x * 4096) div 65536)]
      else if z = CHR ''='' then
        (let n = b64_index w * 262144 + b64_index x * 4096 + b64_index y * 64
         in [of_nat (n div 65536), of_nat (n div 256 mod 256)])
      else
        (let n = b64_index w * 262144 + b64_index x * 4096 + b64_index y * 64 + b64_index z
         in [of_nat (n div 65536), of_nat (n div 256 mod 256), of_nat (n mod 256)]
            @ base64_decode rest))"
| "base64_decode _ = []"

subsection \<open>\<^verbatim>\<open>createBase64UriForWasm\<close>\<close>

text \<open>
  \<^verbatim>\<open>readFile(filePath, 'base64')\<close> is the base64 text of the file's bytes. A
  failure of the read is thrown again with the prefix.
\<close>

definition createBase64UriForWasm :: "host \<Rightarrow> string \<Rightarrow> event list \<times> (string + string)" where
  "createBase64UriForWasm h filePath =
     ([ReadFile filePath],
      (case readFile h filePath of
         Inl msg \<Rightarrow> Inl (''Failed to read WASM file: '' @ msg)
       | Inr bytes \<Rightarrow> Inr (''data:application/wasm;base64,'' @ base64_encode bytes)))"

subsection \<open>\<^verbatim>\<open>parseWasm\<close>\<close>

record import_group =
  from' :: string
  names :: "string list"

text \<open>
  The \<^verbatim>\<open>Map\<close> from module to names: its entries in insertion order.
  \<^verbatim>\<open>set\<close> of a new key adds the entry last, \<^verbatim>\<open>set\<close> of a key that is
  present replaces its value in place, and \<^verbatim>\<open>get(k).push(name)\<close> extends the
  array stored under \<open>k\<close>.
\<close>

type_synonym import_map = "(string \<times> string list) list"

definition map_has :: "import_map \<Rightarrow> string \<Rightarrow> bool" where
  "map_has m k = (k \<in> set (map fst m))"

definition map_set :: "import_map \<Rightarrow> string \<Rightarrow> string list \<Rightarrow> import_map" where
  "map_set m k v =
     (if map_has m k then map (\<lambda>(k', v'). if k' = k then (k', v) else (k', v')) m
      else m @ [(k, v)])"

definition map_get_push :: "import_map \<Rightarrow> string \<Rightarrow> string \<Rightarrow> import_map" where
  "map_get_push m k name = map (\<lambda>(k', v'). if k' = k then (k', v' @ [name]) else (k', v')) m"

text \<open>The body of the \<^verbatim>\<open>forEach\<close> callback, and the loop.\<close>

definition collect_import :: "import_map \<Rightarrow> string \<times> string \<Rightarrow> import_map" where
  "collect_import m imp =
     (let m' = (if \<not> map_has m (fst imp) then map_set m (fst imp) [] else m)
      in map_get_push m' (fst imp) (snd imp))"

definition importMap :: "(string \<times> string) list \<Rightarrow> import_map" where
  "importMap imps = foldl collect_import [] imps"

definition group_imports :: "(string \<times> string) list \<Rightarrow> import_group list" where
  "group_imports imps = map (\<lambda>(f, ns). \<lparr>from' = f, names = ns\<rparr>) (importMap imps)"

text \<open>
  The grouping as the specification words it, to compare \<open>group_imports\<close> with: the
  modules in the order of their first occurrence, each with the names imported from it,
  in declaration order and with repetitions.
\<close>

fun first_seen :: "'a list \<Rightarrow> 'a list" where
  "first_seen [] = []"
| "first_seen (x # xs) = x # filter (\<lambda>y. y \<noteq> x) (first_seen xs)"

definition names_from :: "string \<Rightarrow> (string \<times> string) list \<Rightarrow> string list" where
  "names_from m imps = map snd (filter (\<lambda>p. fst p = m) imps)"

text \<open>The invariant of the loop: after any prefix, the map holds the groups of that prefix.\<close>

definition grouped :: "(string \<times> string) list \<Rightarrow> import_map" where
  "grouped imps = map (\<lambda>m. (m, names_from m imps)) (first_seen (map fst imps))"

definition spec_groups :: "(string \<times> string) list \<Rightarrow> import_group list" where
  "spec_groups imps = map (\<lambda>m. \<lparr>from' = m, names = names_from m imps\<rparr>) (first_seen (map fst imps))"

definition parseWasm :: "host \<Rightarrow> string \<Rightarrow> event list \<times> (string + import_group list \<times> string list)" where
  "parseWasm h wasmFilePath =
     ([ReadFile wasmFilePath],
      (case readFile h wasmFilePath of
         Inl msg \<Rightarrow> Inl (''Failed to parse WASM file: '' @ msg)
       | Inr wasmBinary \<Rightarrow>
           (case compile h wasmBinary of
              Inl msg \<Rightarrow> Inl (''Failed to parse WASM file: '' @ msg)
            | Inr wasmModule \<Rightarrow>
                Inr (group_imports (mod_imports wasmModule), mod_exports wasmModule))))"

subsection \<open>\<^verbatim>\<open>generateWasmInitCode\<close>\<close>

definition sq :: string where
  "sq = [CHR 0x27]"

definition nl :: string where
  "nl = [CHR 0x0A]"

text \<open>\<^verbatim>\<open>${i}\<close> for an array index: its decimal digits.\<close>

definition decimal_digits :: string where
  "decimal_digits = ''0123456789''"

definition digit_char :: "nat \<Rightarrow> char" where
  "digit_char d = decimal_digits ! d"

fun show_nat :: "nat \<Rightarrow> string" where
  "show_nat n = (if n < 10 then [digit_char n] else show_nat (n div 10) @ [digit_char (n mod 10)])"

declare show_nat.simps [simp del]

text \<open>Reading the digits back, to tell the bindings \<^verbatim>\<open>import0\<close>, \<^verbatim>\<open>import1\<close>, ... apart.\<close>

definition digit_value :: "char \<Rightarrow> nat" where
  "digit_value c = index_of c decimal_digits"

definition read_nat :: "string \<Rightarrow> nat" where
  "read_nat s = foldl (\<lambda>n c. 10 * n + digit_value c) 0 s"

text \<open>
  The text of \<^verbatim>\<open>initWasm\<close>, which does not depend on the arguments: lines 62 to
  103 of the source, as the template literal evaluates them.
\<close>

definition initWasm_lines :: "string list" where
  \<open>initWasm_lines =
    [''  const initWasm = async (imports = {}, wasmUrl) => {'',
     ''    try {'',
     ''      const instance = await (async () => {'',
     ''        if (wasmUrl.startsWith('' @ sq @ ''data:'' @ sq @ '')) {'',
     ''          const base64Content = wasmUrl.replace(/^data:.*?base64,/, '' @ sq @ sq @ '');'',
     [],
     ''          // Decode base64'',
     ''          const bytes = (() => {'',
     ''            if (typeof Buffer === "function" && typeof Buffer.from === "function") {'',
     ''              return Buffer.from(base64Content, "base64");'',
     ''            }'',
     ''            if (typeof atob === "function") {'',
     ''              const binaryString = atob(base64Content);'',
     ''              return Uint8Array.from(binaryString, char => char.charCodeAt(0));'',
     ''            }'',
     ''            throw new Error("No available base64 decoder");'',
     ''          })();'',
     [],
     ''          const result = await WebAssembly.instantiate(bytes, imports);'',
     ''          return result.instance;'',
     ''        }'',
     [],
     ''        // Load from URL'',
     ''        const response = await fetch(wasmUrl);'',
     ''        const contentType = response.headers.get("Content-Type") || "";'',
     [],
     ''        if ("instantiateStreaming" in WebAssembly &&'',
     ''            contentType.startsWith("application/wasm")) {'',
     ''          const result = await WebAssembly.instantiateStreaming(response, imports);'',
     ''          return result.instance;'',
     ''        }'',
     [],
     ''        const buffer = await response.arrayBuffer();'',
     ''        const result = await WebAssembly.instantiate(buffer, imports);'',
     ''        return result.instance;'',
     ''      })();'',
     [],
     ''      return instance.exports;'',
     ''    } catch (error) {'',
     ''      throw new Error(`WASM initialization failed: ${error.message}`);'',
     ''    }'',
     ''  };'']\<close>

text \<open>The three callbacks of the template, one per \<^verbatim>\<open>map\<close>.\<close>

definition import_stmt :: "nat \<Rightarrow> import_group \<Rightarrow> string" where
  "import_stmt i imp = ''import * as import'' @ show_nat i @ '' from '' @ sq @ from' imp @ sq @ '';''"

definition import_member :: "nat \<Rightarrow> string \<Rightarrow> string" where
  "import_member i name = sq @ name @ sq @ '': import'' @ show_nat i @ ''.'' @ name"

definition import_entry :: "nat \<Rightarrow> import_group \<Rightarrow> string" where
  "import_entry i imp =
     sq @ from' imp @ sq @ '': { '' @ join '', '' (map (import_member i) (names imp)) @ '' }''"

definition export_stmt :: "string \<Rightarrow> string" where
  "export_stmt name = ''export const '' @ name @ '' = wasmModule.'' @ name @ '';''"

text \<open>\<^verbatim>\<open>xs.map((x, i) => f(i, x))\<close>.\<close>

definition map_index :: "(nat \<Rightarrow> 'a \<Rightarrow> 'b) \<Rightarrow> 'a list \<Rightarrow> 'b list" where
  "map_index f xs = map (\<lambda>(i, x). f i x) (enumerate 0 xs)"

definition generateWasmInitCode :: "import_group list \<Rightarrow> string list \<Rightarrow> string \<Rightarrow> string" where
  "generateWasmInitCode imports exports wasmUrl =
     nl @ concat (map (\<lambda>l. l @ nl)
       (initWasm_lines @
        [[],
         ''  // Import dependency modules'',
         ''  '' @ join nl (map_index import_stmt imports),
         [],
         ''  // Initialize WASM module, passing in external imports'',
         ''  const wasmModule = await initWasm({'',
         ''    '' @ join ('','' @ nl) (map_index import_entry imports),
         ''  }, '' @ sq @ wasmUrl @ sq @ '');'',
         [],
         ''  // Export WASM functions'',
         ''  '' @ join nl (map export_stmt exports)]))"

text \<open>
  How JavaScript reads the statements the callbacks emit, to say what the text binds.
  An identifier is a letter, \<^verbatim>\<open>_\<close> or \<^verbatim>\<open>$\<close> followed by letters, digits,
  \<^verbatim>\<open>_\<close> and \<^verbatim>\<open>$\<close> (the ASCII part of the grammar); a binding may not be a
  reserved word of module code. A reader gives \<open>None\<close> for a text that is not of its
  form.
\<close>

definition ascii_letters :: string where
  "ascii_letters = ''abcdefghijklmnopqrstuvwxyzABCDEFGHIJKLMNOPQRSTUVWXYZ''"

definition ident_start :: "char \<Rightarrow> bool" where
  "ident_start c = (c \<in> set ascii_letters \<or> c = CHR ''_'' \<or> c = CHR ''$'')"

definition ident_part :: "char \<Rightarrow> bool" where
  "ident_part c = (ident_start c \<or> c \<in> set decimal_digits)"

definition is_identifier :: "string \<Rightarrow> bool" where
  "is_identifier s = (case s of [] \<Rightarrow> False | c # cs \<Rightarrow> ident_start c \<and> list_all ident_part cs)"

definition reserved_words :: "string list" where
  "reserved_words =
     [''await'', ''break'', ''case'', ''catch'', ''class'', ''const'', ''continue'', ''debugger'',
      ''default'', ''delete'', ''do'', ''else'', ''enum'', ''export'', ''extends'', ''false'',
      ''finally'', ''for'', ''function'', ''if'', ''implements'', ''import'', ''in'',
      ''instanceof'', ''interface'', ''let'', ''new'', ''null'', ''package'', ''private'',
      ''protected'', ''public'', ''return'', ''static'', ''super'', ''switch'', ''this'',
      ''throw'', ''true'', ''try'', ''typeof'', ''var'', ''void'', ''while'', ''with'', ''yield'']"

definition is_binding_identifier :: "string \<Rightarrow> bool" where
  "is_binding_identifier s = (is_identifier s \<and> s \<notin> set reserved_words)"

fun split_on :: "char \<Rightarrow> string \<Rightarrow> string list" where
  "split_on c [] = [[]]"
| "split_on c (x # xs) =
     (if x = c then [] # split_on c xs
      else (case split_on c xs of [] \<Rightarrow> [[x]] | seg # segs \<Rightarrow> (x # seg) # segs))"

text \<open>
  \<^verbatim>\<open>base.m1.m2\<close>: the binding and the path of member names taken from it, one
  after the other.
\<close>

definition read_member_expr :: "string \<Rightarrow> (string \<times> string list) option" where
  "read_member_expr s =
     (case split_on CHR ''.'' s of
        base # m # ms \<Rightarrow>
          if is_binding_identifier base \<and> list_all is_identifier (m # ms)
          then Some (base, m # ms) else None
      | _ \<Rightarrow> None)"

fun strip_prefix :: "string \<Rightarrow> string \<Rightarrow> string option" where
  "strip_prefix [] s = Some s"
| "strip_prefix (p # ps) [] = None"
| "strip_prefix (p # ps) (c # cs) = (if p = c then strip_prefix ps cs else None)"

definition strip_suffix :: "string \<Rightarrow> string \<Rightarrow> string option" where
  "strip_suffix p s = map_option rev (strip_prefix (rev p) (rev s))"

text \<open>
  \<^verbatim>\<open>export const name = base.member;\<close>: the exported binding, and the member
  expression it is initialised with.
\<close>

definition read_export_stmt :: "string \<Rightarrow> (string \<times> string \<times> string list) option" where
  "read_export_stmt s =
     (case strip_prefix ''export const '' s of
        None \<Rightarrow> None
      | Some r \<Rightarrow>
          if is_binding_identifier (takeWhile ident_part r) then
            (case strip_prefix '' = '' (dropWhile ident_part r) of
               None \<Rightarrow> None
             | Some e \<Rightarrow>
                 (case strip_suffix '';'' e of
                    None \<Rightarrow> None
                  | Some m \<Rightarrow>
                      (case read_member_expr m of
                         None \<Rightarrow> None
                       | Some (base, path) \<Rightarrow> Some (takeWhile ident_part r, base, path))))
          else None)"

text \<open>
  A string literal in single quotes with no escape in it, and what follows it: the
  literal denotes the characters between the quotes.
\<close>

definition read_string_literal :: "string \<Rightarrow> (string \<times> string) option" where
  "read_string_literal s =
     (case s of
        [] \<Rightarrow> None
      | q # cs \<Rightarrow>
          if q = CHR 0x27 then
            (case dropWhile (\<lambda>c. c \<noteq> CHR 0x27) cs of
               [] \<Rightarrow> None
             | _ # rest \<Rightarrow>
                 if list_ex (\<lambda>c. c = CHR 0x5C \<or> c = CHR 0x0A \<or> c = CHR 0x0D)
                      (takeWhile (\<lambda>c. c \<noteq> CHR 0x27) cs)
                 then None
                 else Some (takeWhile (\<lambda>c. c \<noteq> CHR 0x27) cs, rest))
          else None)"

text \<open>
  \<^verbatim>\<open>'key': base.member\<close>, a property of an object literal: the key, and the member
  expression that is its value.
\<close>

definition read_property :: "string \<Rightarrow> (string \<times> string \<times> string list) option" where
  "read_property s =
     (case read_string_literal s of
        None \<Rightarrow> None
      | Some (key, rest) \<Rightarrow>
          (case strip_prefix '': '' rest of
             None \<Rightarrow> None
           | Some e \<Rightarrow>
               (case read_member_expr e of
                  None \<Rightarrow> None
                | Some (base, path) \<Rightarrow> Some (key, base, path))))"

text \<open>
  What the shim does with an inline URL when it runs (lines 65 to 71 of the source):
  \<^verbatim>\<open>replace(/^data:.*?base64,/, '')\<close> drops the shortest prefix that starts with
  \<^verbatim>\<open>data:\<close> and ends with \<^verbatim>\<open>base64,\<close> on the first line, and the
  rest is decoded.
\<close>

fun after_marker :: "string \<Rightarrow> string option" where
  "after_marker [] = None"
| "after_marker (c # cs) =
     (if startsWith (c # cs) ''base64,'' then Some (drop 7 (c # cs))
      else if c = CHR 0x0A \<or> c = CHR 0x0D then None
      else after_marker cs)"

definition replace_data_prefix :: "string \<Rightarrow> string" where
  "replace_data_prefix wasmUrl =
     (if startsWith wasmUrl ''data:'' then
        (case after_marker (drop 5 wasmUrl) of None \<Rightarrow> wasmUrl | Some rest \<Rightarrow> rest)
      else wasmUrl)"

definition shim_inline_bytes :: "string \<Rightarrow> byte list option" where
  "shim_inline_bytes wasmUrl =
     (if startsWith wasmUrl ''data:'' then Some (base64_decode (replace_data_prefix wasmUrl))
      else None)"

subsection \<open>The hooks\<close>

datatype hook_result = RNull | RUndefined | RString string

text \<open>
  The file name \<^verbatim>\<open>resolveId\<close> stores under \<^verbatim>\<open>meta.wasmPath\<close>:
  the base name without \<^verbatim>\<open>.wasm\<close>, a dash, the first eight characters of the hex
  MD5 digest of the resolved id, and \<^verbatim>\<open>.wasm\<close>.
\<close>

definition wasmPath_for :: "host \<Rightarrow> string \<Rightarrow> string" where
  "wasmPath_for h rid =
     (let hash = take 8 (md5hex h rid)
      in basename h rid ''.wasm'' @ ''-'' @ hash @ ''.wasm'')"

text \<open>
  \<^verbatim>\<open>resolveId\<close> gives the requests it issued, what it returns (\<open>Inl\<close> when
  \<^verbatim>\<open>fs.statSync\<close> throws: the hook has no handler) and the object it got from
  \<^verbatim>\<open>this.resolve\<close>, as the hook leaves it.
\<close>

definition resolveId ::
  "host \<Rightarrow> config \<Rightarrow> string \<Rightarrow> string option \<Rightarrow> event list \<times> (string + hook_result) \<times> resolved option" where
  "resolveId h cfg source importer =
     (if \<not> endsWith source ''.wasm'' then ([], Inr RNull, None)
      else (case resolve h source importer of
              None \<Rightarrow> ([Resolve source], Inr RUndefined, None)
            | Some r \<Rightarrow>
                (case statSize h (id' r) of
                   Inl msg \<Rightarrow> ([Resolve source, StatSync (id' r)], Inl msg, Some r)
                 | Inr sz \<Rightarrow>
                     if js_gt (maxFileSize cfg) (Fin 0) \<and> js_gt (Fin (of_nat sz)) (maxFileSize cfg)
                     then ([Resolve source, StatSync (id' r)], Inr (RString (id' r)),
                           Some (r\<lparr>meta := (meta r)(''wasmPath'' \<mapsto> wasmPath_for h (id' r))\<rparr>))
                     else ([Resolve source, StatSync (id' r)], Inr (RString (id' r)), Some r))))"

definition shouldInline :: "config \<Rightarrow> nat \<Rightarrow> bool" where
  "shouldInline cfg sz =
     ((if js_eq (maxFileSize cfg) (Fin 0) then False
       else js_le (Fin (of_nat sz)) (maxFileSize cfg))
      \<or> targetEnv cfg = Node)"

definition load_error :: "string \<Rightarrow> event" where
  "load_error msg = ReportError (''Failed to load WASM: '' @ msg)"

text \<open>\<^verbatim>\<open>resolved.meta?.wasmPath || path.basename(id)\<close>: the empty string is falsy.\<close>

definition asset_fileName :: "host \<Rightarrow> resolved \<Rightarrow> string \<Rightarrow> string" where
  "asset_fileName h r ident =
     (case meta r ''wasmPath'' of
        None \<Rightarrow> basename h ident []
      | Some w \<Rightarrow> if w = [] then basename h ident [] else w)"

text \<open>
  \<^verbatim>\<open>load\<close> gives the requests it issued and what it returns. Both calls of the
  \<^verbatim>\<open>Promise.all\<close> issue their read before either result is awaited. When both
  reject, the model reports the rejection of \<^verbatim>\<open>parseWasm\<close>, whose read was
  issued first. A \<^verbatim>\<open>null\<close> from \<^verbatim>\<open>this.resolve\<close> makes
  \<^verbatim>\<open>resolved.meta\<close> a TypeError.
\<close>

definition load :: "host \<Rightarrow> config \<Rightarrow> string \<Rightarrow> event list \<times> hook_result" where
  "load h cfg ident =
     (if \<not> endsWith ident ''.wasm'' then ([], RNull)
      else (case statSize h ident of
              Inl msg \<Rightarrow> ([StatSync ident, load_error msg], RUndefined)
            | Inr sz \<Rightarrow>
                if shouldInline cfg sz then
                  (let (ev1, parsed) = parseWasm h ident;
                       (ev2, encoded) = createBase64UriForWasm h ident
                   in case parsed of
                        Inl msg \<Rightarrow> (StatSync ident # ev1 @ ev2 @ [load_error msg], RUndefined)
                      | Inr (imports, exports) \<Rightarrow>
                          (case encoded of
                             Inl msg \<Rightarrow> (StatSync ident # ev1 @ ev2 @ [load_error msg], RUndefined)
                           | Inr wasmUrl \<Rightarrow>
                               (StatSync ident # ev1 @ ev2,
                                RString (generateWasmInitCode imports exports wasmUrl))))
                else
                  (let (ev1, parsed) = parseWasm h ident
                   in case parsed of
                        Inl msg \<Rightarrow> (StatSync ident # ev1 @ [load_error msg], RUndefined)
                      | Inr (imports, exports) \<Rightarrow>
                          (case resolve h ident None of
                             None \<Rightarrow>
                               (StatSync ident # ev1 @
                                  [Resolve ident,
                                   load_error (''Cannot read properties of null (reading '' @ sq
                                               @ ''meta'' @ sq @ '')'')],
                                RUndefined)
                           | Some r \<Rightarrow>
                               (let fileName = asset_fileName h r ident
                                in case readFile h ident of
                                     Inl msg \<Rightarrow>
                                       (StatSync ident # ev1 @
                                          [Resolve ident, ReadFile ident, load_error msg],
                                        RUndefined)
                                   | Inr source \<Rightarrow>
                                       (StatSync ident # ev1 @
                                          [Resolve ident, ReadFile ident, EmitFile fileName source],
                                        RString (generateWasmInitCode imports exports fileName)))))))"

text \<open>
  One resolve and load cycle of a specifier: \<^verbatim>\<open>resolveId\<close>, then
  \<^verbatim>\<open>load\<close> of the id it returned, on the same host. Only the id passes from one
  hook to the other: \<^verbatim>\<open>resolveId\<close> returns \<^verbatim>\<open>resolved?.id\<close>, and
  \<^verbatim>\<open>load\<close> asks \<^verbatim>\<open>this.resolve(id)\<close> again. A cycle whose
  \<^verbatim>\<open>resolveId\<close> returns no id has no load.
\<close>

definition cycle :: "host \<Rightarrow> config \<Rightarrow> string \<Rightarrow> string option \<Rightarrow> event list \<times> hook_result" where
  "cycle h cfg source importer =
     (case resolveId h cfg source importer of
        (ev, Inr (RString ident), _) \<Rightarrow> (let (ev', res) = load h cfg ident in (ev @ ev', res))
      | (ev, _, _) \<Rightarrow> (ev, RUndefined))"

text \<open>The \<^verbatim>\<open>meta.wasmPath\<close> of the object \<^verbatim>\<open>resolveId\<close> leaves behind.\<close>

definition attached_wasmPath ::
  "event list \<times> (string + hook_result) \<times> resolved option \<Rightarrow> string option" where
  "attached_wasmPath res = (case snd (snd res) of None \<Rightarrow> None | Some r \<Rightarrow> meta r ''wasmPath'')"

text \<open>Observations on a list of requests.\<close>

definition reads :: "event list \<Rightarrow> nat" where
  "reads evs = length (filter (\<lambda>e. case e of ReadFile _ \<Rightarrow> True | _ \<Rightarrow> False) evs)"

definition reports :: "event list \<Rightarrow> nat" where
  "reports evs = length (filter (\<lambda>e. case e of ReportError _ \<Rightarrow> True | _ \<Rightarrow> False) evs)"

definition emitted :: "event list \<Rightarrow> (string \<times> byte list) list" where
  "emitted evs = concat (map (\<lambda>e. case e of EmitFile n b \<Rightarrow> [(n, b)] | _ \<Rightarrow> []) evs)"

definition returned_source :: "hook_result \<Rightarrow> bool" where
  "returned_source r = (case r of RString _ \<Rightarrow> True | _ \<Rightarrow> False)"

subsection \<open>A concrete host\<close>

text \<open>
  A host with one file, \<^verbatim>\<open>/proj/pkg/demo.wasm\<close>: a module of 58 bytes that
  imports \<^verbatim>\<open>env.log\<close> and exports \<^verbatim>\<open>add\<close>. Its \<open>compile\<close> accepts
  these bytes and nothing else, its \<open>basename\<close> is the last segment of the path
  without the extension asked for, and its \<open>md5hex\<close> is the MD5 digest of that path.
\<close>

definition demo_path :: string where
  "demo_path = ''/proj/pkg/demo.wasm''"

definition demo_bytes :: "byte list" where
  "demo_bytes =
     [0x00, 0x61, 0x73, 0x6d, 0x01, 0x00, 0x00, 0x00,
      0x01, 0x0b, 0x02, 0x60, 0x01, 0x7f, 0x00, 0x60, 0x02, 0x7f, 0x7f, 0x01, 0x7f,
      0x02, 0x0b, 0x01, 0x03, 0x65, 0x6e, 0x76, 0x03, 0x6c, 0x6f, 0x67, 0x00, 0x00,
      0x03, 0x02, 0x01, 0x01,
      0x07, 0x07, 0x01, 0x03, 0x61, 0x64, 0x64, 0x00, 0x01,
      0x0a, 0x09, 0x01, 0x07, 0x00, 0x20, 0x00, 0x20, 0x01, 0x6a, 0x0b]"

definition demo_module :: wasm_module where
  "demo_module = \<lparr>mod_imports = [(''env'', ''log'')], mod_exports = [''add'']\<rparr>"

definition demo_basename :: "string \<Rightarrow> string \<Rightarrow> string" where
  "demo_basename p ext =
     (let b = rev (takeWhile (\<lambda>c. c \<noteq> CHR ''/'') (rev p))
      in if ext \<noteq> [] \<and> endsWith b ext \<and> b \<noteq> ext then take (length b - length ext) b else b)"

definition demo_host :: "byte list \<Rightarrow> host" where
  "demo_host content =
     \<lparr>statSize = (\<lambda>p. if p = demo_path then Inr (length content) else Inl ''ENOENT''),
      readFile = (\<lambda>p. if p = demo_path then Inr content else Inl ''ENOENT''),
      compile = (\<lambda>b. if b = demo_bytes then Inr demo_module
                      else Inl ''WebAssembly.compile(): expected magic word''),
      resolve = (\<lambda>s i. if endsWith s ''demo.wasm''
                        then Some \<lparr>id' = demo_path, meta = Map.empty\<rparr> else None),
      md5hex = (\<lambda>s. ''b9cec274ddba24452dd0ac1539547580''),
      basename = demo_basename\<rparr>"

section \<open>Properties\<close>

subsection \<open>Observations\<close>

lemma js_le_Fin [simp]: "js_le (Fin a) (Fin b) = (a \<le> b)"
  by (auto simp: js_le_def)

lemma emitted_simps [simp]:
  "emitted [] = []"
  "emitted (StatSync p # evs) = emitted evs"
  "emitted (ReadFile p # evs) = emitted evs"
  "emitted (Resolve p # evs) = emitted evs"
  "emitted (ReportError m # evs) = emitted evs"
  "emitted (EmitFile n b # evs) = (n, b) # emitted evs"
  "emitted (xs @ ys) = emitted xs @ emitted ys"
  by (simp_all add: emitted_def)

lemma reads_simps [simp]:
  "reads [] = 0"
  "reads (StatSync p # evs) = reads evs"
  "reads (ReadFile p # evs) = Suc (reads evs)"
  "reads (Resolve p # evs) = reads evs"
  "reads (ReportError m # evs) = reads evs"
  "reads (EmitFile n b # evs) = reads evs"
  "reads (xs @ ys) = reads xs + reads ys"
  by (simp_all add: reads_def)

lemma reports_simps [simp]:
  "reports [] = 0"
  "reports (StatSync p # evs) = reports evs"
  "reports (ReadFile p # evs) = reports evs"
  "reports (Resolve p # evs) = reports evs"
  "reports (ReportError m # evs) = Suc (reports evs)"
  "reports (EmitFile n b # evs) = reports evs"
  "reports (xs @ ys) = reports xs + reports ys"
  by (simp_all add: reports_def)

lemma returned_source_simps [simp]:
  "returned_source (RString s)"
  "\<not> returned_source RNull"
  "\<not> returned_source RUndefined"
  by (simp_all add: returned_source_def)

subsection \<open>The shape of \<^verbatim>\<open>load\<close>, branch by branch\<close>

lemma load_stat_failure:
  "statSize h ident = Inl msg \<Longrightarrow> endsWith ident ''.wasm'' \<Longrightarrow>
   load h cfg ident = ([StatSync ident, load_error msg], RUndefined)"
  by (simp add: load_def)

lemma load_inline_emits_nothing:
  "statSize h ident = Inr sz \<Longrightarrow> shouldInline cfg sz \<Longrightarrow> emitted (fst (load h cfg ident)) = []"
  by (simp add: load_def parseWasm_def createBase64UriForWasm_def load_error_def
      split: sum.splits prod.splits)

lemma load_external_emits:
  "statSize h ident = Inr sz \<Longrightarrow> \<not> shouldInline cfg sz \<Longrightarrow>
   returned_source (snd (load h cfg ident)) \<Longrightarrow> emitted (fst (load h cfg ident)) \<noteq> []"
  by (cases "endsWith ident ''.wasm''")
     (auto simp: load_def parseWasm_def load_error_def Let_def
           split: sum.splits prod.splits option.splits)

lemma load_node_emits_nothing:
  "targetEnv cfg = Node \<Longrightarrow> emitted (fst (load h cfg ident)) = []"
proof (cases "endsWith ident ''.wasm''")
  case False
  then show ?thesis by (simp add: load_def)
next
  case wasm: True
  assume node: "targetEnv cfg = Node"
  show ?thesis
  proof (cases "statSize h ident")
    case (Inl msg)
    with wasm show ?thesis by (simp add: load_stat_failure load_error_def)
  next
    case (Inr sz)
    moreover from node have "shouldInline cfg sz" by (simp add: shouldInline_def)
    ultimately show ?thesis by (rule load_inline_emits_nothing)
  qed
qed

lemma parseWasm_events [simp]: "fst (parseWasm h p) = [ReadFile p]"
  by (simp add: parseWasm_def)

lemma createBase64_events [simp]: "fst (createBase64UriForWasm h p) = [ReadFile p]"
  by (simp add: createBase64UriForWasm_def)

lemma load_inline:
  assumes "endsWith ident ''.wasm''" and "statSize h ident = Inr sz" and "shouldInline cfg sz"
    and "readFile h ident = Inr bytes" and "compile h bytes = Inr m"
  shows "load h cfg ident =
    ([StatSync ident, ReadFile ident, ReadFile ident],
     RString (generateWasmInitCode (group_imports (mod_imports m)) (mod_exports m)
                (''data:application/wasm;base64,'' @ base64_encode bytes)))"
  using assms by (simp add: load_def parseWasm_def createBase64UriForWasm_def)

lemma load_external:
  assumes "endsWith ident ''.wasm''" and "statSize h ident = Inr sz" and "\<not> shouldInline cfg sz"
    and "readFile h ident = Inr bytes" and "compile h bytes = Inr m"
    and "resolve h ident None = Some r"
  shows "load h cfg ident =
    ([StatSync ident, ReadFile ident, Resolve ident, ReadFile ident,
      EmitFile (asset_fileName h r ident) bytes],
     RString (generateWasmInitCode (group_imports (mod_imports m)) (mod_exports m)
                (asset_fileName h r ident)))"
  using assms by (simp add: load_def parseWasm_def Let_def)

lemma load_parse_failure:
  assumes "endsWith ident ''.wasm''" and "statSize h ident = Inr sz"
    and "snd (parseWasm h ident) = Inl msg"
  shows "load h cfg ident =
    (if shouldInline cfg sz then [StatSync ident, ReadFile ident, ReadFile ident, load_error msg]
     else [StatSync ident, ReadFile ident, load_error msg], RUndefined)"
  using assms by (simp add: load_def parseWasm_def createBase64UriForWasm_def split: sum.splits)


subsection \<open>\<^verbatim>\<open>resolveId\<close> and the cycle\<close>

lemma resolveId_resolved:
  assumes "endsWith source ''.wasm''" and "resolve h source importer = Some r"
    and "statSize h (id' r) = Inr sz"
  shows "resolveId h cfg source importer =
    ([Resolve source, StatSync (id' r)], Inr (RString (id' r)),
     Some (if js_gt (maxFileSize cfg) (Fin 0) \<and> js_gt (Fin (of_nat sz)) (maxFileSize cfg)
           then r\<lparr>meta := (meta r)(''wasmPath'' \<mapsto> wasmPath_for h (id' r))\<rparr> else r))"
  using assms by (simp add: resolveId_def)

lemma resolveId_ignores_targetEnv:
  "resolveId h (cfg\<lparr>targetEnv := t\<rparr>) source importer = resolveId h cfg source importer"
  by (simp add: resolveId_def split: option.splits sum.splits)

lemma cycle_external:
  assumes src: "endsWith source ''.wasm''" and res: "resolve h source importer = Some r"
    and wasm: "endsWith (id' r) ''.wasm''" and stat: "statSize h (id' r) = Inr sz"
    and ext: "\<not> shouldInline cfg sz"
    and rd: "readFile h (id' r) = Inr bytes" and comp: "compile h bytes = Inr m"
    and again: "resolve h (id' r) None = Some r'"
  shows "cycle h cfg source importer =
    ([Resolve source, StatSync (id' r), StatSync (id' r), ReadFile (id' r), Resolve (id' r),
      ReadFile (id' r), EmitFile (asset_fileName h r' (id' r)) bytes],
     RString (generateWasmInitCode (group_imports (mod_imports m)) (mod_exports m)
                (asset_fileName h r' (id' r))))"
  by (simp add: cycle_def resolveId_resolved [OF src res stat]
      load_external [OF wasm stat ext rd comp again])

lemma cycle_inline:
  assumes src: "endsWith source ''.wasm''" and res: "resolve h source importer = Some r"
    and wasm: "endsWith (id' r) ''.wasm''" and stat: "statSize h (id' r) = Inr sz"
    and inl: "shouldInline cfg sz"
    and rd: "readFile h (id' r) = Inr bytes" and comp: "compile h bytes = Inr m"
  shows "cycle h cfg source importer =
    ([Resolve source, StatSync (id' r), StatSync (id' r), ReadFile (id' r), ReadFile (id' r)],
     RString (generateWasmInitCode (group_imports (mod_imports m)) (mod_exports m)
                (''data:application/wasm;base64,'' @ base64_encode bytes)))"
  by (simp add: cycle_def resolveId_resolved [OF src res stat]
      load_inline [OF wasm stat inl rd comp])

text \<open>
  What \<^verbatim>\<open>resolveId\<close> attached does not reach \<^verbatim>\<open>load\<close>: on a host whose
  answer to \<^verbatim>\<open>this.resolve(id)\<close> carries no \<^verbatim>\<open>wasmPath\<close>, the asset of an
  external cycle is emitted under \<^verbatim>\<open>path.basename(id)\<close>, whatever the
  configuration.
\<close>

lemma cycle_external_plain_name:
  assumes "endsWith source ''.wasm''" and "resolve h source importer = Some r"
    and "endsWith (id' r) ''.wasm''" and "statSize h (id' r) = Inr sz"
    and "\<not> shouldInline cfg sz"
    and "readFile h (id' r) = Inr bytes" and "compile h bytes = Inr m"
    and "resolve h (id' r) None = Some r'" and "meta r' ''wasmPath'' = None"
  shows "emitted (fst (cycle h cfg source importer)) = [(basename h (id' r) [], bytes)]"
  using assms(9) by (simp add: cycle_external [OF assms(1-8)] asset_fileName_def)

subsection \<open>The concrete host\<close>

lemma length_demo_bytes: "length demo_bytes = 58"
  by (simp add: demo_bytes_def)

lemma demo_wasm: "endsWith demo_path ''.wasm''"
  by (simp add: endsWith_def demo_path_def)

lemma demo_host_simps [simp]:
  "statSize (demo_host content) demo_path = Inr (length content)"
  "readFile (demo_host content) demo_path = Inr content"
  "compile (demo_host content) demo_bytes = Inr demo_module"
  "resolve (demo_host content) demo_path i = Some \<lparr>id' = demo_path, meta = Map.empty\<rparr>"
  "md5hex (demo_host content) s = ''b9cec274ddba24452dd0ac1539547580''"
  "basename (demo_host content) = demo_basename"
  by (simp_all add: demo_host_def endsWith_def demo_path_def)

lemma demo_load_browser_returns:
  "returned_source
     (snd (load (demo_host demo_bytes) \<lparr>maxFileSize = Fin 4, targetEnv = Browser\<rparr> demo_path))"
  by (simp add: load_def demo_wasm parseWasm_def shouldInline_def length_demo_bytes Let_def)


lemma demo_resolve_spec [simp]:
  "resolve (demo_host content) ''./demo.wasm'' i = Some \<lparr>id' = demo_path, meta = Map.empty\<rparr>"
  by (simp add: demo_host_def endsWith_def)

lemma demo_spec_wasm: "endsWith ''./demo.wasm'' ''.wasm''"
  by (simp add: endsWith_def)

lemma demo_wasmPath: "wasmPath_for (demo_host content) demo_path = ''demo-b9cec274.wasm''"
  by (simp add: wasmPath_for_def demo_basename_def demo_path_def endsWith_def)

lemma demo_basename_noext: "demo_basename demo_path ''.wasm'' = ''demo''"
  by (simp add: demo_basename_def demo_path_def endsWith_def)

lemma demo_basename_path: "demo_basename demo_path [] = ''demo.wasm''"
  by (simp add: demo_basename_def demo_path_def)

subsection \<open>Placement\<close>

text \<open>
  Claim C1. The decision of \<^verbatim>\<open>load\<close> is the function \<open>shouldInline\<close> of the
  file size and the configuration. For the node target it is inline at every size, and
  no load of the node target emits an asset. For the browser target with
  \<open>maxFileSize = 0\<close> it is external at every size. For the browser target with
  \<open>maxFileSize > 0\<close> it is inline exactly when the size is at most \<open>maxFileSize\<close>.
  A load that returns a shim has emitted an asset exactly when the decision is external.
\<close>

theorem placement_decision:
  "(targetEnv cfg = Node \<longrightarrow> shouldInline cfg sz \<and> emitted (fst (load h cfg ident)) = [])
   \<and> (targetEnv cfg = Browser \<and> js_eq (maxFileSize cfg) (Fin 0) \<longrightarrow> \<not> shouldInline cfg sz)
   \<and> (targetEnv cfg = Browser \<and> js_gt (maxFileSize cfg) (Fin 0) \<longrightarrow>
        shouldInline cfg sz = js_le (Fin (of_nat sz)) (maxFileSize cfg))
   \<and> (statSize h ident = Inr sz \<and> returned_source (snd (load h cfg ident)) \<longrightarrow>
        (emitted (fst (load h cfg ident)) = []) = shouldInline cfg sz)"
proof (intro conjI impI)
  assume "targetEnv cfg = Node"
  then show "shouldInline cfg sz" by (simp add: shouldInline_def)
next
  assume "targetEnv cfg = Node"
  then show "emitted (fst (load h cfg ident)) = []" by (rule load_node_emits_nothing)
next
  assume "targetEnv cfg = Browser \<and> js_eq (maxFileSize cfg) (Fin 0)"
  then show "\<not> shouldInline cfg sz" by (simp add: shouldInline_def)
next
  assume a: "targetEnv cfg = Browser \<and> js_gt (maxFileSize cfg) (Fin 0)"
  then have "\<not> js_eq (maxFileSize cfg) (Fin 0)"
    by (cases "maxFileSize cfg") (auto simp: js_gt_def)
  with a show "shouldInline cfg sz = js_le (Fin (of_nat sz)) (maxFileSize cfg)"
    by (simp add: shouldInline_def)
next
  assume a: "statSize h ident = Inr sz \<and> returned_source (snd (load h cfg ident))"
  show "(emitted (fst (load h cfg ident)) = []) = shouldInline cfg sz"
  proof (cases "shouldInline cfg sz")
    case True
    with a show ?thesis by (simp add: load_inline_emits_nothing)
  next
    case False
    with a show ?thesis by (simp add: load_external_emits)
  qed
qed

theorem placement_decision_witness:
  "shouldInline \<lparr>maxFileSize = Fin 14336, targetEnv = Node\<rparr> 20000
   \<and> emitted (fst (load (demo_host demo_bytes)
                      \<lparr>maxFileSize = Fin 14336, targetEnv = Node\<rparr> demo_path)) = []
   \<and> \<not> shouldInline \<lparr>maxFileSize = Fin 0, targetEnv = Browser\<rparr> 100
   \<and> shouldInline \<lparr>maxFileSize = Fin 14336, targetEnv = Browser\<rparr> 14336
   \<and> \<not> shouldInline \<lparr>maxFileSize = Fin 14336, targetEnv = Browser\<rparr> 14337
   \<and> emitted (fst (load (demo_host demo_bytes)
                      \<lparr>maxFileSize = Fin 4, targetEnv = Browser\<rparr> demo_path)) \<noteq> []"
  using placement_decision [of "\<lparr>maxFileSize = Fin 14336, targetEnv = Node\<rparr>" 20000
          "demo_host demo_bytes" demo_path]
        placement_decision [of "\<lparr>maxFileSize = Fin 0, targetEnv = Browser\<rparr>" 100]
        placement_decision [of "\<lparr>maxFileSize = Fin 14336, targetEnv = Browser\<rparr>" 14336]
        placement_decision [of "\<lparr>maxFileSize = Fin 14336, targetEnv = Browser\<rparr>" 14337]
        placement_decision [of "\<lparr>maxFileSize = Fin 4, targetEnv = Browser\<rparr>" 58
          "demo_host demo_bytes" demo_path]
        demo_load_browser_returns
  by (simp add: js_gt_def length_demo_bytes)

subsection \<open>Modules that are not WebAssembly\<close>

text \<open>
  Claim C10. For a specifier or an id that does not end in \<^verbatim>\<open>.wasm\<close>, both hooks
  return null and ask nothing of the host: no resolution, no read, no asset and no
  source, whatever the configuration.
\<close>

theorem non_wasm_ignored:
  "\<not> endsWith s ''.wasm'' \<Longrightarrow>
     resolveId h cfg s importer = ([], Inr RNull, None) \<and> load h cfg s = ([], RNull)"
  by (simp add: resolveId_def load_def)

theorem non_wasm_ignored_witness:
  "resolveId (demo_host demo_bytes) \<lparr>maxFileSize = Fin 0, targetEnv = Browser\<rparr> ''./main.js'' None
     = ([], Inr RNull, None)
   \<and> load (demo_host demo_bytes) \<lparr>maxFileSize = Fin 0, targetEnv = Browser\<rparr> ''./main.js''
     = ([], RNull)"
  using non_wasm_ignored [of "''./main.js''" "demo_host demo_bytes"
      "\<lparr>maxFileSize = Fin 0, targetEnv = Browser\<rparr>" None]
  by (simp add: endsWith_def)

subsection \<open>Configuration\<close>

lemma wasmPlugin_defaults:
  "wasmPlugin \<lparr>opt_maxFileSize = JUndefined, opt_targetEnv = JUndefined\<rparr>
     = Inr \<lparr>maxFileSize = Fin 14336, targetEnv = Node\<rparr>"
  by (simp add: wasmPlugin_def default_targetEnv_def default_maxFileSize_def)

lemma wasmPlugin_rejects_targetEnv:
  "opt_targetEnv opts \<notin> {JUndefined, JStr ''node'', JStr ''browser''} \<Longrightarrow>
   wasmPlugin opts = Inl ''targetEnv must be node or browser''"
  by (simp add: wasmPlugin_def Let_def)

lemma wasmPlugin_rejects_maxFileSize:
  "opt_targetEnv opts \<in> {JUndefined, JStr ''node'', JStr ''browser''} \<Longrightarrow>
   opt_maxFileSize opts \<noteq> JUndefined \<Longrightarrow>
   typeof (opt_maxFileSize opts) \<noteq> ''number'' \<or> (\<exists>n. opt_maxFileSize opts = JNum n \<and> js_lt n (Fin 0)) \<Longrightarrow>
   wasmPlugin opts = Inl ''maxFileSize must be a non-negative number''"
  by (cases "opt_maxFileSize opts")
     (auto simp: wasmPlugin_def Let_def default_targetEnv_def)

lemma wasmPlugin_accepts:
  "wasmPlugin opts = Inr cfg \<Longrightarrow>
   (opt_maxFileSize opts = JUndefined \<and> maxFileSize cfg = Fin 14336
      \<or> opt_maxFileSize opts = JNum (maxFileSize cfg))
   \<and> \<not> js_lt (maxFileSize cfg) (Fin 0)"
  by (cases "opt_maxFileSize opts")
     (auto simp: wasmPlugin_def Let_def default_maxFileSize_def split: if_splits)

text \<open>
  Claim C9. The constructor applies the defaults 14336 and \<^verbatim>\<open>node\<close>, and validates
  before it returns the hooks: it throws for a \<^verbatim>\<open>targetEnv\<close> other than the two
  names, for a \<^verbatim>\<open>maxFileSize\<close> whose type is not number and for one below zero
  (the three lemmas above). The claim also wants every \<^verbatim>\<open>maxFileSize\<close> that is
  not a non-negative number refused. NaN has the type number and is not below zero, so
  the test \<^verbatim>\<open>typeof maxFileSize !== 'number' || maxFileSize < 0\<close> lets it pass:
  the constructor returns a plugin whose \<open>maxFileSize\<close> is NaN.
\<close>

theorem wasmPlugin_accepts_NaN:
  "wasmPlugin \<lparr>opt_maxFileSize = JNum NaN, opt_targetEnv = JUndefined\<rparr>
     = Inr \<lparr>maxFileSize = NaN, targetEnv = Node\<rparr>"
  by (simp add: wasmPlugin_def default_targetEnv_def)

subsection \<open>Reads of the file\<close>




subsection \<open>Malformed binaries\<close>

text \<open>
  Claim C8. When the bytes of a \<^verbatim>\<open>.wasm\<close> file do not compile,
  \<^verbatim>\<open>parseWasm\<close> fails with an error that wraps the cause of the compiler; the load
  returns no source, emits no asset and calls \<^verbatim>\<open>this.error\<close> exactly once, with a
  message that wraps the parse error in turn.
\<close>

theorem malformed_binary_reported:
  assumes "endsWith ident ''.wasm''" and "readFile h ident = Inr bytes"
    and "compile h bytes = Inl cause"
  shows "snd (parseWasm h ident) = Inl (''Failed to parse WASM file: '' @ cause)
     \<and> snd (load h cfg ident) = RUndefined
     \<and> reports (fst (load h cfg ident)) = 1
     \<and> emitted (fst (load h cfg ident)) = []
     \<and> (statSize h ident = Inr sz \<longrightarrow>
          last (fst (load h cfg ident))
            = ReportError (''Failed to load WASM: Failed to parse WASM file: '' @ cause))"
proof -
  from assms have p: "snd (parseWasm h ident) = Inl (''Failed to parse WASM file: '' @ cause)"
    by (simp add: parseWasm_def)
  show ?thesis
  proof (cases "statSize h ident")
    case (Inl msg)
    with assms(1) p show ?thesis by (simp add: load_stat_failure load_error_def)
  next
    case (Inr sz')
    from load_parse_failure [OF assms(1) Inr p, of cfg] p Inr show ?thesis
      by (simp add: load_error_def)
  qed
qed

theorem malformed_binary_reported_witness:
  "snd (parseWasm (demo_host [0, 1, 2, 3]) demo_path)
     = Inl ''Failed to parse WASM file: WebAssembly.compile(): expected magic word''
   \<and> snd (load (demo_host [0, 1, 2, 3]) \<lparr>maxFileSize = Fin 14336, targetEnv = Browser\<rparr> demo_path)
     = RUndefined
   \<and> reports (fst (load (demo_host [0, 1, 2, 3])
                     \<lparr>maxFileSize = Fin 14336, targetEnv = Browser\<rparr> demo_path)) = 1
   \<and> emitted (fst (load (demo_host [0, 1, 2, 3])
                     \<lparr>maxFileSize = Fin 14336, targetEnv = Browser\<rparr> demo_path)) = []
   \<and> last (fst (load (demo_host [0, 1, 2, 3])
                  \<lparr>maxFileSize = Fin 14336, targetEnv = Browser\<rparr> demo_path))
     = ReportError ''Failed to load WASM: Failed to parse WASM file: WebAssembly.compile(): expected magic word''"
proof -
  have c: "compile (demo_host [0, 1, 2, 3]) [0, 1, 2, 3]
             = Inl ''WebAssembly.compile(): expected magic word''"
    by (simp add: demo_host_def demo_bytes_def)
  have r: "readFile (demo_host [0, 1, 2, 3]) demo_path = Inr [0, 1, 2, 3]" by simp
  from malformed_binary_reported [OF demo_wasm r c,
      of "\<lparr>maxFileSize = Fin 14336, targetEnv = Browser\<rparr>" 4]
  show ?thesis by simp
qed

subsection \<open>The name of the asset\<close>

text \<open>
  Claim C4. The claim wants the asset of an external decision named by the base name
  without \<^verbatim>\<open>.wasm\<close>, a dash, eight hex characters of the MD5 digest of the
  resolved path, and \<^verbatim>\<open>.wasm\<close>. \<^verbatim>\<open>resolveId\<close> computes that name and
  stores it on the object it got from \<^verbatim>\<open>this.resolve\<close>, but it returns only the id,
  and \<^verbatim>\<open>load\<close> takes \<^verbatim>\<open>meta.wasmPath\<close> from a new call of
  \<^verbatim>\<open>this.resolve(id)\<close>; the stored name is lost. For the browser target with
  \<open>maxFileSize = 4\<close> and the file of 58 bytes the decision is external,
  \<^verbatim>\<open>resolveId\<close> derives \<^verbatim>\<open>demo-b9cec274.wasm\<close>, and the cycle emits the
  asset as \<^verbatim>\<open>demo.wasm\<close> and generates the shim with that name.
\<close>

theorem hashed_asset_name_lost:
  "\<not> shouldInline \<lparr>maxFileSize = Fin 4, targetEnv = Browser\<rparr> (length demo_bytes)
   \<and> attached_wasmPath (resolveId (demo_host demo_bytes)
                           \<lparr>maxFileSize = Fin 4, targetEnv = Browser\<rparr> ''./demo.wasm'' None)
       = Some ''demo-b9cec274.wasm''
   \<and> cycle (demo_host demo_bytes) \<lparr>maxFileSize = Fin 4, targetEnv = Browser\<rparr> ''./demo.wasm'' None
       = ([Resolve ''./demo.wasm'', StatSync demo_path, StatSync demo_path, ReadFile demo_path,
           Resolve demo_path, ReadFile demo_path, EmitFile ''demo.wasm'' demo_bytes],
          RString (generateWasmInitCode (group_imports (mod_imports demo_module))
                     (mod_exports demo_module) ''demo.wasm''))"
proof -
  have ext: "\<not> shouldInline \<lparr>maxFileSize = Fin 4, targetEnv = Browser\<rparr> 58"
    by (simp add: shouldInline_def)
  have name: "asset_fileName (demo_host demo_bytes) \<lparr>id' = demo_path, meta = Map.empty\<rparr> demo_path
                = ''demo.wasm''"
    by (simp add: asset_fileName_def demo_basename_path)
  have att: "attached_wasmPath (resolveId (demo_host demo_bytes)
                \<lparr>maxFileSize = Fin 4, targetEnv = Browser\<rparr> ''./demo.wasm'' None)
              = Some ''demo-b9cec274.wasm''"
    by (simp add: attached_wasmPath_def js_gt_def length_demo_bytes demo_wasmPath
        resolveId_resolved [OF demo_spec_wasm demo_resolve_spec, of demo_bytes 58])
  have "cycle (demo_host demo_bytes) \<lparr>maxFileSize = Fin 4, targetEnv = Browser\<rparr> ''./demo.wasm'' None
       = ([Resolve ''./demo.wasm'', StatSync demo_path, StatSync demo_path, ReadFile demo_path,
           Resolve demo_path, ReadFile demo_path, EmitFile ''demo.wasm'' demo_bytes],
          RString (generateWasmInitCode (group_imports (mod_imports demo_module))
                     (mod_exports demo_module) ''demo.wasm''))"
    using cycle_external [of "''./demo.wasm''" "demo_host demo_bytes" None
      "\<lparr>id' = demo_path, meta = Map.empty\<rparr>" 58 "\<lparr>maxFileSize = Fin 4, targetEnv = Browser\<rparr>"
      demo_bytes demo_module "\<lparr>id' = demo_path, meta = Map.empty\<rparr>"] ext
    by (simp add: demo_spec_wasm demo_wasm length_demo_bytes name)
  with ext att show ?thesis
    by (simp add: length_demo_bytes)
qed

subsection \<open>When the name is derived, and the asset behind it\<close>

text \<open>
  Claim C5, as the code has it. \<^verbatim>\<open>resolveId\<close> derives the hashed name and attaches
  it to the resolution exactly when \<open>maxFileSize > 0\<close> and the file is larger than
  \<open>maxFileSize\<close>; it does not look at \<open>targetEnv\<close>, so it does the same for the node
  target, whose decision is inline. A load whose decision is inline emits no asset.
  A load whose decision is external and that returns a shim has emitted the bytes of the
  file under the very name the shim is generated with, and the emission is the last
  request before the shim is returned.
\<close>

theorem asset_name_derivation:
  assumes "endsWith source ''.wasm''" and "resolve h source importer = Some r"
    and "statSize h (id' r) = Inr sz"
  shows "attached_wasmPath (resolveId h cfg source importer) =
           (if js_gt (maxFileSize cfg) (Fin 0) \<and> js_gt (Fin (of_nat sz)) (maxFileSize cfg)
            then Some (wasmPath_for h (id' r)) else meta r ''wasmPath'')
     \<and> resolveId h (cfg\<lparr>targetEnv := t\<rparr>) source importer = resolveId h cfg source importer
     \<and> (shouldInline cfg sz \<longrightarrow> emitted (fst (load h cfg (id' r))) = [])
     \<and> (\<not> shouldInline cfg sz \<and> endsWith (id' r) ''.wasm'' \<and> readFile h (id' r) = Inr bytes
          \<and> compile h bytes = Inr m \<and> resolve h (id' r) None = Some r' \<longrightarrow>
        load h cfg (id' r) =
          ([StatSync (id' r), ReadFile (id' r), Resolve (id' r), ReadFile (id' r),
            EmitFile (asset_fileName h r' (id' r)) bytes],
           RString (generateWasmInitCode (group_imports (mod_imports m)) (mod_exports m)
                      (asset_fileName h r' (id' r)))))"
proof (intro conjI impI)
  show "attached_wasmPath (resolveId h cfg source importer) =
           (if js_gt (maxFileSize cfg) (Fin 0) \<and> js_gt (Fin (of_nat sz)) (maxFileSize cfg)
            then Some (wasmPath_for h (id' r)) else meta r ''wasmPath'')"
    by (simp add: resolveId_resolved [OF assms] attached_wasmPath_def)
  show "resolveId h (cfg\<lparr>targetEnv := t\<rparr>) source importer = resolveId h cfg source importer"
    by (rule resolveId_ignores_targetEnv)
  show "emitted (fst (load h cfg (id' r))) = []" if "shouldInline cfg sz"
    using assms(3) that by (rule load_inline_emits_nothing)
  show "load h cfg (id' r) =
          ([StatSync (id' r), ReadFile (id' r), Resolve (id' r), ReadFile (id' r),
            EmitFile (asset_fileName h r' (id' r)) bytes],
           RString (generateWasmInitCode (group_imports (mod_imports m)) (mod_exports m)
                      (asset_fileName h r' (id' r))))"
    if "\<not> shouldInline cfg sz \<and> endsWith (id' r) ''.wasm'' \<and> readFile h (id' r) = Inr bytes
          \<and> compile h bytes = Inr m \<and> resolve h (id' r) None = Some r'"
    using that assms(3) by (intro load_external [where sz = sz]) simp_all
qed

theorem asset_name_derivation_witness:
  "attached_wasmPath (resolveId (demo_host demo_bytes) \<lparr>maxFileSize = Fin 4, targetEnv = Browser\<rparr>
                        ''./demo.wasm'' None) = Some ''demo-b9cec274.wasm''
   \<and> resolveId (demo_host demo_bytes) (\<lparr>maxFileSize = Fin 4, targetEnv = Browser\<rparr>\<lparr>targetEnv := Node\<rparr>)
        ''./demo.wasm'' None
      = resolveId (demo_host demo_bytes) \<lparr>maxFileSize = Fin 4, targetEnv = Browser\<rparr> ''./demo.wasm'' None
   \<and> emitted (fst (load (demo_host demo_bytes) \<lparr>maxFileSize = Fin 64, targetEnv = Browser\<rparr>
                      demo_path)) = []
   \<and> load (demo_host demo_bytes) \<lparr>maxFileSize = Fin 4, targetEnv = Browser\<rparr> demo_path =
       ([StatSync demo_path, ReadFile demo_path, Resolve demo_path, ReadFile demo_path,
         EmitFile ''demo.wasm'' demo_bytes],
        RString (generateWasmInitCode (group_imports (mod_imports demo_module))
                   (mod_exports demo_module) ''demo.wasm''))"
proof -
  have name: "asset_fileName (demo_host demo_bytes) \<lparr>id' = demo_path, meta = Map.empty\<rparr> demo_path
                = ''demo.wasm''"
    by (simp add: asset_fileName_def demo_basename_path)
  from asset_name_derivation [of "''./demo.wasm''" "demo_host demo_bytes" None
      "\<lparr>id' = demo_path, meta = Map.empty\<rparr>" 58 "\<lparr>maxFileSize = Fin 4, targetEnv = Browser\<rparr>"
      Node demo_bytes demo_module "\<lparr>id' = demo_path, meta = Map.empty\<rparr>"]
    asset_name_derivation [of "''./demo.wasm''" "demo_host demo_bytes" None
      "\<lparr>id' = demo_path, meta = Map.empty\<rparr>" 58 "\<lparr>maxFileSize = Fin 64, targetEnv = Browser\<rparr>"]
  show ?thesis
    by (simp add: demo_spec_wasm demo_wasm length_demo_bytes js_gt_def shouldInline_def
        demo_wasmPath name)
qed

text \<open>
  The claim as it is written fails for the node target: with \<open>maxFileSize = 4\<close> and the
  file of 58 bytes the decision is inline, the cycle returns a shim and emits nothing,
  and yet \<^verbatim>\<open>resolveId\<close> has derived the name \<^verbatim>\<open>demo-b9cec274.wasm\<close>.
\<close>

theorem asset_name_derivation_counterexample:
  "shouldInline \<lparr>maxFileSize = Fin 4, targetEnv = Node\<rparr> (length demo_bytes)
   \<and> attached_wasmPath (resolveId (demo_host demo_bytes) \<lparr>maxFileSize = Fin 4, targetEnv = Node\<rparr>
                          ''./demo.wasm'' None) = Some ''demo-b9cec274.wasm''
   \<and> returned_source (snd (cycle (demo_host demo_bytes) \<lparr>maxFileSize = Fin 4, targetEnv = Node\<rparr>
                                ''./demo.wasm'' None))
   \<and> emitted (fst (cycle (demo_host demo_bytes) \<lparr>maxFileSize = Fin 4, targetEnv = Node\<rparr>
                        ''./demo.wasm'' None)) = []"
proof -
  have inl: "shouldInline \<lparr>maxFileSize = Fin 4, targetEnv = Node\<rparr> 58"
    by (simp add: shouldInline_def)
  have "cycle (demo_host demo_bytes) \<lparr>maxFileSize = Fin 4, targetEnv = Node\<rparr> ''./demo.wasm'' None =
    ([Resolve ''./demo.wasm'', StatSync demo_path, StatSync demo_path, ReadFile demo_path,
      ReadFile demo_path],
     RString (generateWasmInitCode (group_imports (mod_imports demo_module))
                (mod_exports demo_module)
                (''data:application/wasm;base64,'' @ base64_encode demo_bytes)))"
    using cycle_inline [of "''./demo.wasm''" "demo_host demo_bytes" None
      "\<lparr>id' = demo_path, meta = Map.empty\<rparr>" 58 "\<lparr>maxFileSize = Fin 4, targetEnv = Node\<rparr>"
      demo_bytes demo_module] inl
    by (simp add: demo_spec_wasm demo_wasm length_demo_bytes)
  with inl show ?thesis
    by (simp add: attached_wasmPath_def js_gt_def length_demo_bytes demo_wasmPath
      resolveId_resolved [OF demo_spec_wasm demo_resolve_spec, of demo_bytes 58])
qed

subsection \<open>Grouping of the imports\<close>

lemma set_first_seen [simp]: "set (first_seen xs) = set xs"
  by (induction xs) auto

lemma distinct_first_seen [simp]: "distinct (first_seen xs)"
  by (induction xs) auto

lemma first_seen_snoc:
  "first_seen (xs @ [x]) = (if x \<in> set xs then first_seen xs else first_seen xs @ [x])"
  by (induction xs) auto

lemma names_from_snoc:
  "names_from m (imps @ [(k, n)]) = names_from m imps @ (if k = m then [n] else [])"
  by (simp add: names_from_def)

lemma names_from_absent: "m \<notin> fst ` set imps \<Longrightarrow> names_from m imps = []"
  by (induction imps) (auto simp: names_from_def)

lemma map_has_grouped: "map_has (grouped imps) k = (k \<in> fst ` set imps)"
  by (simp add: map_has_def grouped_def comp_def)

lemma collect_import_grouped:
  "collect_import (grouped imps) (k, n) = grouped (imps @ [(k, n)])"
proof (cases "k \<in> fst ` set imps")
  case True
  then have "collect_import (grouped imps) (k, n) = map_get_push (grouped imps) k n"
    by (simp add: collect_import_def map_has_grouped)
  also from True have "\<dots> = grouped (imps @ [(k, n)])"
    by (simp add: map_get_push_def grouped_def first_seen_snoc names_from_snoc)
  finally show ?thesis .
next
  case False
  then have "collect_import (grouped imps) (k, n) = map_get_push (grouped imps @ [(k, [])]) k n"
    by (simp add: collect_import_def map_has_grouped map_set_def)
  also from False have "\<dots> = grouped (imps @ [(k, n)])"
    by (auto simp: map_get_push_def grouped_def first_seen_snoc names_from_snoc names_from_absent)
  finally show ?thesis .
qed

lemma importMap_grouped: "importMap imps = grouped imps"
proof (induction imps rule: rev_induct)
  case Nil
  show ?case by (simp add: importMap_def grouped_def)
next
  case (snoc p imps)
  then show ?case
    by (cases p) (simp add: importMap_def collect_import_grouped)
qed

lemma group_imports_spec: "group_imports imps = spec_groups imps"
  by (simp add: group_imports_def importMap_grouped grouped_def spec_groups_def)

lemma distinct_spec_groups: "distinct (map from' (spec_groups imps))"
  by (simp add: spec_groups_def comp_def)

text \<open>
  Claim C2. For a binary that compiles, \<^verbatim>\<open>parseWasm\<close> returns the imports grouped
  by module: the groups are the modules in the order of their first occurrence, so their
  \<^verbatim>\<open>from\<close> values are pairwise distinct, and the names of a group are the names of
  all the pairs of its module, in declaration order, a repeated pair giving a repeated
  name. In particular the pairs (m1, a), (m1, b), (m2, c) give the group of m1 with a and
  b, then the group of m2 with c.
\<close>

theorem parse_groups_imports:
  "group_imports imps = spec_groups imps
   \<and> map from' (group_imports imps) = first_seen (map fst imps)
   \<and> distinct (map from' (group_imports imps))
   \<and> (m1 \<noteq> m2 \<longrightarrow>
        group_imports [(m1, a), (m1, b), (m2, c)]
          = [\<lparr>from' = m1, names = [a, b]\<rparr>, \<lparr>from' = m2, names = [c]\<rparr>])
   \<and> group_imports [(m1, a), (m1, a)] = [\<lparr>from' = m1, names = [a, a]\<rparr>]
   \<and> (readFile h p = Inr bytes \<and> compile h bytes = Inr wm \<longrightarrow>
        snd (parseWasm h p) = Inr (group_imports (mod_imports wm), mod_exports wm))"
proof (intro conjI impI)
  show "group_imports imps = spec_groups imps" by (rule group_imports_spec)
  show "map from' (group_imports imps) = first_seen (map fst imps)"
    by (simp add: group_imports_spec spec_groups_def comp_def)
  show "distinct (map from' (group_imports imps))"
    by (simp add: group_imports_spec distinct_spec_groups)
  show "group_imports [(m1, a), (m1, b), (m2, c)]
          = [\<lparr>from' = m1, names = [a, b]\<rparr>, \<lparr>from' = m2, names = [c]\<rparr>]" if "m1 \<noteq> m2"
    using that by (auto simp: group_imports_spec spec_groups_def names_from_def)
  show "group_imports [(m1, a), (m1, a)] = [\<lparr>from' = m1, names = [a, a]\<rparr>]"
    by (simp add: group_imports_spec spec_groups_def names_from_def)
  show "snd (parseWasm h p) = Inr (group_imports (mod_imports wm), mod_exports wm)"
    if "readFile h p = Inr bytes \<and> compile h bytes = Inr wm"
    using that by (simp add: parseWasm_def)
qed

theorem parse_groups_imports_witness:
  "group_imports [(''env'', ''log''), (''env'', ''globalVar''), (''js'', ''print'')]
     = [\<lparr>from' = ''env'', names = [''log'', ''globalVar'']\<rparr>, \<lparr>from' = ''js'', names = [''print'']\<rparr>]
   \<and> snd (parseWasm (demo_host demo_bytes) demo_path)
     = Inr ([\<lparr>from' = ''env'', names = [''log'']\<rparr>], [''add''])"
proof -
  have g: "group_imports [(''env'', ''log'')] = [\<lparr>from' = ''env'', names = [''log'']\<rparr>]"
    by (simp add: group_imports_spec spec_groups_def names_from_def)
  from parse_groups_imports [of "[]" "''env''" "''js''" "''log''" "''globalVar''" "''print''"
      "demo_host demo_bytes" demo_path demo_bytes demo_module]
  show ?thesis by (simp add: g demo_module_def)
qed

subsection \<open>The base64 round trip\<close>

lemma length_b64_alphabet: "length b64_alphabet = 64"
  by (simp add: b64_alphabet_def)

lemma distinct_b64_alphabet: "distinct b64_alphabet"
  by (simp add: b64_alphabet_def)

lemma pad_not_in_alphabet: "CHR ''='' \<notin> set b64_alphabet"
  by (simp add: b64_alphabet_def)

lemma index_of_nth: "distinct xs \<Longrightarrow> i < length xs \<Longrightarrow> index_of (xs ! i) xs = i"
proof (induction xs arbitrary: i)
  case Nil
  then show ?case by simp
next
  case (Cons x xs)
  then show ?case by (cases i) auto
qed

lemma b64_index_char [simp]: "i < 64 \<Longrightarrow> b64_index (b64_char i) = i"
  by (simp add: b64_index_def b64_char_def index_of_nth distinct_b64_alphabet length_b64_alphabet)

lemma b64_char_not_pad [simp]: "i < 64 \<Longrightarrow> b64_char i \<noteq> CHR ''=''"
proof -
  assume "i < 64"
  then have "b64_alphabet ! i \<in> set b64_alphabet"
    by (simp add: length_b64_alphabet)
  with pad_not_in_alphabet show ?thesis
    by (auto simp: b64_char_def)
qed

lemma unat_byte_less: "unat (a :: byte) < 256"
  using unsigned_less [of a] by simp

lemma recombine_sextets:
  fixes n a b c r0 r1 r2 :: nat
  assumes "n = 64 * a + r0" and "a = 64 * b + r1" and "b = 64 * c + r2"
  shows "c * 262144 + r2 * 4096 + r1 * 64 + r0 = n"
  using assms by simp

lemma div_4096: "(n :: nat) div 4096 = n div 64 div 64"
  by (simp add: div_mult2_eq)

lemma div_262144: "(n :: nat) div 262144 = n div 64 div 64 div 64"
  by (simp add: div_mult2_eq)

lemma sextets_recombine:
  fixes n :: nat
  shows "n div 262144 * 262144 + n div 4096 mod 64 * 4096 + n div 64 mod 64 * 64 + n mod 64 = n"
  unfolding div_4096 div_262144
  by (rule recombine_sextets [of n "n div 64" "n mod 64" "n div 64 div 64" "n div 64 mod 64"
        "n div 64 div 64 div 64" "n div 64 div 64 mod 64"]) simp_all

lemma top_sextet_less: "(n :: nat) < 16777216 \<Longrightarrow> n div 262144 < 64"
  by (simp add: less_mult_imp_div_less)

lemma of_nat_unat_byte: "of_nat (unat (a :: byte)) = a"
  by simp

lemma div_mod_digit:
  fixes q m r :: nat
  assumes "r < m"
  shows "(q * m + r) div m = q" and "(q * m + r) mod m = r"
  using assms by simp_all

lemma split24:
  fixes a b c :: nat
  assumes "b < 256" and "c < 256"
  shows "(a * 65536 + b * 256 + c) div 65536 = a"
    and "(a * 65536 + b * 256 + c) div 256 mod 256 = b"
    and "(a * 65536 + b * 256 + c) mod 256 = c"
proof -
  have low: "b * 256 + c < 65536" using assms by linarith
  have e1: "a * 65536 + b * 256 + c = a * 65536 + (b * 256 + c)" by simp
  have e2: "a * 65536 + b * 256 + c = (a * 256 + b) * 256 + c" by simp
  show "(a * 65536 + b * 256 + c) div 65536 = a"
    by (simp only: e1 div_mod_digit(1) [OF low])
  have "(a * 65536 + b * 256 + c) div 256 = a * 256 + b"
    by (simp only: e2 div_mod_digit(1) [OF assms(2)])
  then show "(a * 65536 + b * 256 + c) div 256 mod 256 = b"
    by (simp only: div_mod_digit(2) [OF assms(1)])
  show "(a * 65536 + b * 256 + c) mod 256 = c"
    by (simp only: e2 div_mod_digit(2) [OF assms(2)])
qed

lemma bound24:
  fixes a b c :: nat
  assumes "a < 256" and "b < 256" and "c < 256"
  shows "a * 65536 + b * 256 + c < 16777216"
  using assms by linarith

lemma mod64_less: "(n :: nat) mod 64 < 64"
  by simp

lemma decode_encode_3:
  "base64_decode (base64_encode (a # b # c # rest)) = a # b # c # base64_decode (base64_encode rest)"
proof -
  define n where "n = unat a * 65536 + unat b * 256 + unat c"
  have n24: "n < 16777216"
    unfolding n_def by (rule bound24) (rule unat_byte_less)+
  have enc: "base64_encode (a # b # c # rest) =
      b64_char (n div 262144) # b64_char (n div 4096 mod 64) # b64_char (n div 64 mod 64)
        # b64_char (n mod 64) # base64_encode rest"
    by (simp add: n_def Let_def)
  have val: "b64_index (b64_char (n div 262144)) * 262144
           + b64_index (b64_char (n div 4096 mod 64)) * 4096
           + b64_index (b64_char (n div 64 mod 64)) * 64
           + b64_index (b64_char (n mod 64)) = n"
    using n24 by (simp add: top_sextet_less sextets_recombine)
  have bytes: "n div 65536 = unat a" "n div 256 mod 256 = unat b" "n mod 256 = unat c"
    unfolding n_def by (rule split24; rule unat_byte_less)+
  have "base64_decode (base64_encode (a # b # c # rest)) =
      [of_nat (n div 65536), of_nat (n div 256 mod 256), of_nat (n mod 256)]
        @ base64_decode (base64_encode rest)"
    unfolding enc by (simp add: Let_def val del: b64_index_char)
  then show ?thesis
    by (simp only: bytes of_nat_unat_byte append_Cons append_Nil)
qed

lemma decode_encode_2: "base64_decode (base64_encode [a, b]) = [a, b]"
proof -
  define n where "n = unat a * 65536 + unat b * 256 + 0"
  have n24: "n < 16777216"
    unfolding n_def by (rule bound24) (simp_all add: unat_byte_less)
  have low: "n mod 64 = 0"
  proof -
    have "n = (unat a * 1024 + unat b * 4) * 64" by (simp add: n_def)
    then show ?thesis by (simp only: mod_mult_self2_is_0)
  qed
  have enc: "base64_encode [a, b] =
      [b64_char (n div 262144), b64_char (n div 4096 mod 64), b64_char (n div 64 mod 64), CHR ''='']"
    by (simp add: n_def Let_def)
  have val: "b64_index (b64_char (n div 262144)) * 262144
           + b64_index (b64_char (n div 4096 mod 64)) * 4096
           + b64_index (b64_char (n div 64 mod 64)) * 64 = n"
    using n24 sextets_recombine [of n] by (simp add: top_sextet_less low)
  have bytes: "n div 65536 = unat a" "n div 256 mod 256 = unat b"
    unfolding n_def by (rule split24; simp add: unat_byte_less)+
  have "base64_decode (base64_encode [a, b]) = [of_nat (n div 65536), of_nat (n div 256 mod 256)]"
    unfolding enc by (simp add: Let_def val del: b64_index_char)
  then show ?thesis
    by (simp only: bytes of_nat_unat_byte)
qed

lemma decode_encode_1: "base64_decode (base64_encode [a]) = [a]"
proof -
  define n where "n = unat a * 65536 + 0 * 256 + 0"
  have n24: "n < 16777216"
    unfolding n_def by (rule bound24) (simp_all add: unat_byte_less)
  have low: "n mod 64 = 0" "n div 64 mod 64 = 0"
  proof -
    have e: "n = (unat a * 1024) * 64" by (simp add: n_def)
    then show "n mod 64 = 0" by (simp only: mod_mult_self2_is_0)
    from e have "n div 64 = unat a * 1024" by simp
    then have "n div 64 = (unat a * 16) * 64" by simp
    then show "n div 64 mod 64 = 0" by (simp only: mod_mult_self2_is_0)
  qed
  have enc: "base64_encode [a] =
      [b64_char (n div 262144), b64_char (n div 4096 mod 64), CHR ''='', CHR ''='']"
    by (simp add: n_def Let_def)
  have val: "b64_index (b64_char (n div 262144)) * 262144
           + b64_index (b64_char (n div 4096 mod 64)) * 4096 = n"
    using n24 sextets_recombine [of n] by (simp add: top_sextet_less low)
  have bytes: "n div 65536 = unat a"
    unfolding n_def by (rule split24; simp)
  have "base64_decode (base64_encode [a]) = [of_nat (n div 65536)]"
    unfolding enc by (simp add: val del: b64_index_char)
  then show ?thesis
    by (simp only: bytes of_nat_unat_byte)
qed

lemma base64_round_trip: "base64_decode (base64_encode bytes) = bytes"
proof (induction bytes rule: base64_encode.induct)
  case 1
  show ?case by simp
next
  case (2 a)
  show ?case by (rule decode_encode_1)
next
  case (3 a b)
  show ?case by (rule decode_encode_2)
next
  case (4 a b c rest)
  then show ?case by (simp only: decode_encode_3)
qed

lemma after_marker_prefix: "after_marker (''base64,'' @ rest) = Some rest"
  by (simp add: startsWith_def)

lemma replace_data_prefix_uri:
  "replace_data_prefix (''data:application/wasm;base64,'' @ payload) = payload"
  by (simp add: replace_data_prefix_def startsWith_def)

lemma uri_startsWith_data: "startsWith (''data:application/wasm;base64,'' @ payload) ''data:''"
  by (simp add: startsWith_def)

lemma shim_inline_bytes_uri:
  "shim_inline_bytes (''data:application/wasm;base64,'' @ base64_encode bytes) = Some bytes"
  unfolding shim_inline_bytes_def
  by (simp only: uri_startsWith_data replace_data_prefix_uri base64_round_trip if_True)

lemma demo_base64:
  "base64_encode demo_bytes
     = ''AGFzbQEAAAABCwJgAX8AYAJ/fwF/AgsBA2VudgNsb2cAAAMCAQEHBwEDYWRkAAEKCQEHACAAIAFqCw==''"
  by (simp add: demo_bytes_def b64_char_def b64_alphabet_def)

text \<open>
  Claim C6. The inline URL of a file is \<^verbatim>\<open>data:application/wasm;base64,\<close> followed
  by the base64 text of its bytes; decoding that text gives the bytes back, and so does
  the shim, which strips the prefix and decodes the rest.
\<close>

theorem inline_uri_round_trip:
  "readFile h p = Inr bytes \<Longrightarrow>
     snd (createBase64UriForWasm h p) = Inr (''data:application/wasm;base64,'' @ base64_encode bytes)
     \<and> base64_decode (base64_encode bytes) = bytes
     \<and> shim_inline_bytes (''data:application/wasm;base64,'' @ base64_encode bytes) = Some bytes"
proof (intro conjI)
  assume "readFile h p = Inr bytes"
  then show "snd (createBase64UriForWasm h p)
      = Inr (''data:application/wasm;base64,'' @ base64_encode bytes)"
    unfolding createBase64UriForWasm_def by (simp only: snd_conv sum.case)
  show "base64_decode (base64_encode bytes) = bytes" by (rule base64_round_trip)
  show "shim_inline_bytes (''data:application/wasm;base64,'' @ base64_encode bytes) = Some bytes"
    by (rule shim_inline_bytes_uri)
qed

theorem inline_uri_round_trip_witness:
  "snd (createBase64UriForWasm (demo_host demo_bytes) demo_path)
     = Inr ''data:application/wasm;base64,AGFzbQEAAAABCwJgAX8AYAJ/fwF/AgsBA2VudgNsb2cAAAMCAQEHBwEDYWRkAAEKCQEHACAAIAFqCw==''
   \<and> base64_decode ''AGFzbQEAAAABCwJgAX8AYAJ/fwF/AgsBA2VudgNsb2cAAAMCAQEHBwEDYWRkAAEKCQEHACAAIAFqCw==''
     = demo_bytes
   \<and> shim_inline_bytes ''data:application/wasm;base64,AGFzbQEAAAABCwJgAX8AYAJ/fwF/AgsBA2VudgNsb2cAAAMCAQEHBwEDYWRkAAEKCQEHACAAIAFqCw==''
     = Some demo_bytes"
proof -
  have r: "readFile (demo_host demo_bytes) demo_path = Inr demo_bytes" by simp
  show ?thesis
    unfolding demo_base64 [symmetric]
    using inline_uri_round_trip [OF r]
    by (simp only: append_Cons append_Nil)
qed

subsection \<open>The generated shim\<close>

lemma length_map_index [simp]: "length (map_index f xs) = length xs"
  by (simp add: map_index_def)

lemma nth_map_index [simp]: "i < length xs \<Longrightarrow> map_index f xs ! i = f i (xs ! i)"
  by (simp add: map_index_def nth_enumerate_eq)

lemma map_index_upt: "map_index f xs = map (\<lambda>i. f i (xs ! i)) [0..<length xs]"
  by (rule nth_equalityI) simp_all

lemma decimal_digits_facts: "distinct decimal_digits" "length decimal_digits = 10"
  by (simp_all add: decimal_digits_def)

lemma digit_value_char: "d < 10 \<Longrightarrow> digit_value (digit_char d) = d"
  by (simp add: digit_value_def digit_char_def index_of_nth decimal_digits_facts)

lemma read_nat_snoc: "read_nat (s @ [c]) = 10 * read_nat s + digit_value c"
  by (simp add: read_nat_def)

lemma read_show_nat: "read_nat (show_nat n) = n"
proof (induction n rule: show_nat.induct)
  case (1 n)
  show ?case
  proof (cases "n < 10")
    case True
    then have "show_nat n = [digit_char n]"
      by (subst show_nat.simps) simp
    with True show ?thesis
      by (simp add: read_nat_def digit_value_char)
  next
    case False
    with 1 have ih: "read_nat (show_nat (n div 10)) = n div 10" by simp
    from False have "show_nat n = show_nat (n div 10) @ [digit_char (n mod 10)]"
      by (subst show_nat.simps) simp
    then show ?thesis
      by (simp add: read_nat_snoc digit_value_char ih)
  qed
qed

lemma show_nat_inj: "show_nat i = show_nat j \<Longrightarrow> i = j"
proof -
  assume "show_nat i = show_nat j"
  then have "read_nat (show_nat i) = read_nat (show_nat j)" by (rule arg_cong)
  then show "i = j" by (simp only: read_show_nat)
qed

text \<open>The text of the shim, with the three callbacks written out.\<close>

lemma generateWasmInitCode_text:
  "generateWasmInitCode imports exports wasmUrl =
     nl @ concat (map (\<lambda>l. l @ nl) initWasm_lines)
     @ nl
     @ ''  // Import dependency modules'' @ nl
     @ ''  '' @ join nl
         (map (\<lambda>i. ''import * as import'' @ show_nat i @ '' from '' @ sq @ from' (imports ! i) @ sq @ '';'')
            [0..<length imports]) @ nl
     @ nl
     @ ''  // Initialize WASM module, passing in external imports'' @ nl
     @ ''  const wasmModule = await initWasm({'' @ nl
     @ ''    '' @ join ('','' @ nl)
         (map (\<lambda>i. sq @ from' (imports ! i) @ sq @ '': { ''
                    @ join '', '' (map (\<lambda>name. sq @ name @ sq @ '': import'' @ show_nat i @ ''.'' @ name)
                                    (names (imports ! i)))
                    @ '' }'')
            [0..<length imports]) @ nl
     @ ''  }, '' @ sq @ wasmUrl @ sq @ '');'' @ nl
     @ nl
     @ ''  // Export WASM functions'' @ nl
     @ ''  '' @ join nl (map (\<lambda>name. ''export const '' @ name @ '' = wasmModule.'' @ name @ '';'') exports)
     @ nl
   \<and> inj show_nat"
proof
  have a: "map_index import_stmt imports =
      map (\<lambda>i. ''import * as import'' @ show_nat i @ '' from '' @ sq @ from' (imports ! i) @ sq @ '';'')
        [0..<length imports]"
    unfolding map_index_upt import_stmt_def ..
  have b: "map_index import_entry imports =
      map (\<lambda>i. sq @ from' (imports ! i) @ sq @ '': { ''
                    @ join '', '' (map (\<lambda>name. sq @ name @ sq @ '': import'' @ show_nat i @ ''.'' @ name)
                                    (names (imports ! i)))
                    @ '' }'')
        [0..<length imports]"
    unfolding map_index_upt import_entry_def import_member_def ..
  have c: "map export_stmt exports =
      map (\<lambda>name. ''export const '' @ name @ '' = wasmModule.'' @ name @ '';'') exports"
    unfolding export_stmt_def ..
  show "generateWasmInitCode imports exports wasmUrl =
     nl @ concat (map (\<lambda>l. l @ nl) initWasm_lines)
     @ nl
     @ ''  // Import dependency modules'' @ nl
     @ ''  '' @ join nl
         (map (\<lambda>i. ''import * as import'' @ show_nat i @ '' from '' @ sq @ from' (imports ! i) @ sq @ '';'')
            [0..<length imports]) @ nl
     @ nl
     @ ''  // Initialize WASM module, passing in external imports'' @ nl
     @ ''  const wasmModule = await initWasm({'' @ nl
     @ ''    '' @ join ('','' @ nl)
         (map (\<lambda>i. sq @ from' (imports ! i) @ sq @ '': { ''
                    @ join '', '' (map (\<lambda>name. sq @ name @ sq @ '': import'' @ show_nat i @ ''.'' @ name)
                                    (names (imports ! i)))
                    @ '' }'')
            [0..<length imports]) @ nl
     @ ''  }, '' @ sq @ wasmUrl @ sq @ '');'' @ nl
     @ nl
     @ ''  // Export WASM functions'' @ nl
     @ ''  '' @ join nl (map (\<lambda>name. ''export const '' @ name @ '' = wasmModule.'' @ name @ '';'') exports)
     @ nl"
    unfolding generateWasmInitCode_def a b c
    by (simp only: map_append concat_append list.map concat.simps append_assoc append_Nil append_Nil2)
  show "inj show_nat"
    by (rule injI) (rule show_nat_inj)
qed

text \<open>The shim of the example in the source, with two groups and two exports.\<close>

lemma show_nat_small: "show_nat 0 = ''0''" "show_nat (Suc 0) = ''1''"
  by (simp_all add: show_nat.simps [of 0] show_nat.simps [of "Suc 0"] digit_char_def decimal_digits_def)

lemma generateWasmInitCode_example:
  "generateWasmInitCode
     [\<lparr>from' = ''env'', names = [''log'', ''globalVar'']\<rparr>, \<lparr>from' = ''js'', names = [''print'']\<rparr>]
     [''add'', ''memory''] ''demo.wasm'' =
     nl @ concat (map (\<lambda>l. l @ nl) initWasm_lines)
     @ nl
     @ ''  // Import dependency modules'' @ nl
     @ ''  import * as import0 from '' @ sq @ ''env'' @ sq @ '';'' @ nl
     @ ''import * as import1 from '' @ sq @ ''js'' @ sq @ '';'' @ nl
     @ nl
     @ ''  // Initialize WASM module, passing in external imports'' @ nl
     @ ''  const wasmModule = await initWasm({'' @ nl
     @ ''    '' @ sq @ ''env'' @ sq @ '': { '' @ sq @ ''log'' @ sq @ '': import0.log, ''
                @ sq @ ''globalVar'' @ sq @ '': import0.globalVar },'' @ nl
     @ sq @ ''js'' @ sq @ '': { '' @ sq @ ''print'' @ sq @ '': import1.print }'' @ nl
     @ ''  }, '' @ sq @ ''demo.wasm'' @ sq @ '');'' @ nl
     @ nl
     @ ''  // Export WASM functions'' @ nl
     @ ''  export const add = wasmModule.add;'' @ nl
     @ ''export const memory = wasmModule.memory;'' @ nl"
  using generateWasmInitCode_text [of
      "[\<lparr>from' = ''env'', names = [''log'', ''globalVar'']\<rparr>, \<lparr>from' = ''js'', names = [''print'']\<rparr>]"
      "[''add'', ''memory'']" "''demo.wasm''"]
  by (simp add: show_nat_small)

text \<open>What the emitted statements bind, for names that are identifiers.\<close>

lemma ident_part_not_punct:
  assumes "ident_part c"
  shows "c \<noteq> CHR ''.''" and "c \<noteq> CHR '' ''" and "c \<noteq> CHR 0x27" and "c \<noteq> CHR 0x5C"
    and "c \<noteq> CHR 0x0A" and "c \<noteq> CHR 0x0D"
  using assms
  by (auto simp: ident_part_def ident_start_def ascii_letters_def decimal_digits_def)

lemma ident_start_part: "ident_start c \<Longrightarrow> ident_part c"
  by (simp add: ident_part_def)

lemma identifier_chars: "is_identifier s \<Longrightarrow> \<forall>c \<in> set s. ident_part c"
  by (cases s) (auto simp: is_identifier_def list_all_iff ident_start_part)

lemma identifier_nonempty: "is_identifier s \<Longrightarrow> s \<noteq> []"
  by (auto simp: is_identifier_def)

lemma split_on_none: "c \<notin> set xs \<Longrightarrow> split_on c xs = [xs]"
  by (induction xs) auto

lemma split_on_first: "c \<notin> set xs \<Longrightarrow> split_on c (xs @ c # ys) = xs # split_on c ys"
  by (induction xs) auto

lemma strip_prefix_append [simp]: "strip_prefix p (p @ s) = Some s"
  by (induction p) auto

lemma strip_suffix_append [simp]: "strip_suffix p (s @ p) = Some s"
  by (simp add: strip_suffix_def)

lemma read_member_expr_single:
  assumes "is_binding_identifier base" and "is_identifier name"
  shows "read_member_expr (base @ ''.'' @ name) = Some (base, [name])"
proof -
  from assms(1) have "CHR ''.'' \<notin> set base"
    using identifier_chars [of base] ident_part_not_punct(1)
    by (auto simp: is_binding_identifier_def)
  moreover from assms(2) have "CHR ''.'' \<notin> set name"
    using identifier_chars [of name] ident_part_not_punct(1) by auto
  ultimately have "split_on CHR ''.'' (base @ ''.'' @ name) = [base, name]"
    by (simp add: split_on_first split_on_none)
  with assms show ?thesis
    by (simp add: read_member_expr_def)
qed

lemma wasmModule_binding: "is_binding_identifier ''wasmModule''"
  by (simp add: is_binding_identifier_def is_identifier_def ident_part_def ident_start_def
      ascii_letters_def reserved_words_def)

lemma space_not_ident_part: "\<not> ident_part CHR '' ''"
  using ident_part_not_punct(2) by blast

lemma takeWhile_identifier:
  "is_identifier name \<Longrightarrow> takeWhile ident_part (name @ CHR '' '' # rest) = name"
  using identifier_chars [of name] by (simp add: space_not_ident_part)

lemma dropWhile_identifier:
  "is_identifier name \<Longrightarrow> dropWhile ident_part (name @ CHR '' '' # rest) = CHR '' '' # rest"
  using identifier_chars [of name] by (simp add: space_not_ident_part)

lemma export_stmt_binds:
  assumes "is_binding_identifier name"
  shows "read_export_stmt (export_stmt name) = Some (name, ''wasmModule'', [name])"
proof -
  from assms have idn: "is_identifier name" by (simp add: is_binding_identifier_def)
  have shape: "export_stmt name
      = ''export const '' @ (name @ CHR '' '' # (''= '' @ (''wasmModule'' @ ''.'' @ name) @ '';''))"
    by (simp add: export_stmt_def)
  have m: "read_member_expr (''wasmModule'' @ ''.'' @ name) = Some (''wasmModule'', [name])"
    using wasmModule_binding idn by (rule read_member_expr_single)
  have tail: "strip_prefix '' = '' (CHR '' '' # (''= '' @ (''wasmModule'' @ ''.'' @ name) @ '';''))
      = Some ((''wasmModule'' @ ''.'' @ name) @ '';'')"
    by simp
  show ?thesis
    unfolding read_export_stmt_def shape strip_prefix_append
    by (simp only: option.case takeWhile_identifier [OF idn] dropWhile_identifier [OF idn]
        assms if_True tail strip_suffix_append m prod.case)
qed

lemma digit_char_digit: "d < 10 \<Longrightarrow> digit_char d \<in> set decimal_digits"
  by (simp add: digit_char_def decimal_digits_facts)

lemma show_nat_digits: "\<forall>c \<in> set (show_nat n). c \<in> set decimal_digits"
proof (induction n rule: show_nat.induct)
  case (1 n)
  show ?case
  proof (cases "n < 10")
    case True
    then have "show_nat n = [digit_char n]" by (subst show_nat.simps) simp
    with True show ?thesis by (simp add: digit_char_digit)
  next
    case False
    then have "show_nat n = show_nat (n div 10) @ [digit_char (n mod 10)]"
      by (subst show_nat.simps) simp
    with False 1 show ?thesis by (simp add: digit_char_digit)
  qed
qed

lemma show_nat_nonempty: "show_nat n \<noteq> []"
  by (subst show_nat.simps) simp

lemma reserved_import: "w \<in> set reserved_words \<Longrightarrow> take 6 w = ''import'' \<Longrightarrow> w = ''import''"
  by (auto simp: reserved_words_def)

lemma digits_ident_part: "c \<in> set decimal_digits \<Longrightarrow> ident_part c"
  by (simp add: ident_part_def)

lemma import_binding: "is_binding_identifier (''import'' @ show_nat i)"
proof -
  have "list_all ident_part (show_nat i)"
    using show_nat_digits [of i] by (simp add: list_all_iff digits_ident_part)
  then have ident: "is_identifier (''import'' @ show_nat i)"
    by (simp add: is_identifier_def ident_part_def ident_start_def ascii_letters_def)
  have "''import'' @ show_nat i \<notin> set reserved_words"
  proof
    assume "''import'' @ show_nat i \<in> set reserved_words"
    moreover have "take 6 (''import'' @ show_nat i) = ''import''" by simp
    ultimately have "''import'' @ show_nat i = ''import''" by (rule reserved_import)
    then show False using show_nat_nonempty [of i] by simp
  qed
  with ident show ?thesis by (simp add: is_binding_identifier_def)
qed

lemma read_string_literal_plain:
  assumes "\<forall>c \<in> set body. c \<noteq> CHR 0x27 \<and> c \<noteq> CHR 0x5C \<and> c \<noteq> CHR 0x0A \<and> c \<noteq> CHR 0x0D"
  shows "read_string_literal (CHR 0x27 # body @ CHR 0x27 # rest) = Some (body, rest)"
proof -
  from assms have t: "takeWhile (\<lambda>c. c \<noteq> CHR 0x27) (body @ CHR 0x27 # rest) = body"
    and d: "dropWhile (\<lambda>c. c \<noteq> CHR 0x27) (body @ CHR 0x27 # rest) = CHR 0x27 # rest"
    by simp_all
  from assms have "\<not> list_ex (\<lambda>c. c = CHR 0x5C \<or> c = CHR 0x0A \<or> c = CHR 0x0D) body"
    by (auto simp: list_ex_iff)
  then show ?thesis
    unfolding read_string_literal_def by (simp only: list.case if_True t d) simp
qed

lemma identifier_plain:
  assumes "is_identifier name"
  shows "\<forall>c \<in> set name. c \<noteq> CHR 0x27 \<and> c \<noteq> CHR 0x5C \<and> c \<noteq> CHR 0x0A \<and> c \<noteq> CHR 0x0D"
proof
  fix c assume "c \<in> set name"
  with identifier_chars [OF assms] have "ident_part c" by simp
  then show "c \<noteq> CHR 0x27 \<and> c \<noteq> CHR 0x5C \<and> c \<noteq> CHR 0x0A \<and> c \<noteq> CHR 0x0D"
    by (simp add: ident_part_not_punct)
qed

lemma import_member_shape:
  "import_member i name
      = CHR 0x27 # name @ CHR 0x27 # ('': '' @ ((''import'' @ show_nat i) @ ''.'' @ name))"
  by (simp add: import_member_def sq_def)

lemma import_member_binds:
  assumes "is_identifier name"
  shows "read_property (import_member i name) = Some (name, ''import'' @ show_nat i, [name])"
proof -
  have lit: "read_string_literal (import_member i name)
      = Some (name, '': '' @ ((''import'' @ show_nat i) @ ''.'' @ name))"
    unfolding import_member_shape
    by (rule read_string_literal_plain) (rule identifier_plain [OF assms])
  have m: "read_member_expr ((''import'' @ show_nat i) @ ''.'' @ name)
      = Some (''import'' @ show_nat i, [name])"
    using import_binding assms by (rule read_member_expr_single)
  show ?thesis
    unfolding read_property_def lit
    by (simp only: option.case prod.case strip_prefix_append m)
qed

text \<open>
  Claim C3. The groups and the exports are emitted in order, and for names that are
  identifiers each property and each export is bound to the member of the same name
  (the lemmas above). The claim wants that for every name. The callbacks splice the
  name into \<^verbatim>\<open>import0.name\<close> and \<^verbatim>\<open>export const name\<close> as it is: for the
  import \<^verbatim>\<open>runtime.wasmExit\<close> of the module \<^verbatim>\<open>go\<close> the property is bound
  to the member \<^verbatim>\<open>wasmExit\<close> of the member \<^verbatim>\<open>runtime\<close>, not to the member
  named \<^verbatim>\<open>runtime.wasmExit\<close>, and for the export \<^verbatim>\<open>my-func\<close> the emitted
  statement is not an export at all.
\<close>

theorem shim_splices_names_unquoted:
  "generateWasmInitCode [\<lparr>from' = ''go'', names = [''runtime.wasmExit'']\<rparr>] [''my-func'']
     ''demo.wasm'' =
     nl @ concat (map (\<lambda>l. l @ nl) initWasm_lines)
     @ nl
     @ ''  // Import dependency modules'' @ nl
     @ ''  import * as import0 from '' @ sq @ ''go'' @ sq @ '';'' @ nl
     @ nl
     @ ''  // Initialize WASM module, passing in external imports'' @ nl
     @ ''  const wasmModule = await initWasm({'' @ nl
     @ ''    '' @ sq @ ''go'' @ sq @ '': { '' @ sq @ ''runtime.wasmExit'' @ sq
                @ '': import0.runtime.wasmExit }'' @ nl
     @ ''  }, '' @ sq @ ''demo.wasm'' @ sq @ '');'' @ nl
     @ nl
     @ ''  // Export WASM functions'' @ nl
     @ ''  export const my-func = wasmModule.my-func;'' @ nl
   \<and> read_property (import_member 0 ''runtime.wasmExit'')
       = Some (''runtime.wasmExit'', ''import0'', [''runtime'', ''wasmExit''])
   \<and> read_export_stmt (export_stmt ''my-func'') = None"
proof (intro conjI)
  show "generateWasmInitCode [\<lparr>from' = ''go'', names = [''runtime.wasmExit'']\<rparr>] [''my-func'']
     ''demo.wasm'' =
     nl @ concat (map (\<lambda>l. l @ nl) initWasm_lines)
     @ nl
     @ ''  // Import dependency modules'' @ nl
     @ ''  import * as import0 from '' @ sq @ ''go'' @ sq @ '';'' @ nl
     @ nl
     @ ''  // Initialize WASM module, passing in external imports'' @ nl
     @ ''  const wasmModule = await initWasm({'' @ nl
     @ ''    '' @ sq @ ''go'' @ sq @ '': { '' @ sq @ ''runtime.wasmExit'' @ sq
                @ '': import0.runtime.wasmExit }'' @ nl
     @ ''  }, '' @ sq @ ''demo.wasm'' @ sq @ '');'' @ nl
     @ nl
     @ ''  // Export WASM functions'' @ nl
     @ ''  export const my-func = wasmModule.my-func;'' @ nl"
    using generateWasmInitCode_text [of "[\<lparr>from' = ''go'', names = [''runtime.wasmExit'']\<rparr>]"
        "[''my-func'']" "''demo.wasm''"]
    by (simp add: show_nat_small)
  show "read_property (import_member 0 ''runtime.wasmExit'')
       = Some (''runtime.wasmExit'', ''import0'', [''runtime'', ''wasmExit''])"
    by code_simp
  show "read_export_stmt (export_stmt ''my-func'') = None"
    by code_simp
qed

end
